theory Spec2Isabelle
  imports Main "HOL-Library.Sublist" "HOL-Library.Word"
begin

section \<open>port/stack\_trace.cc: the process and its operating system\<close>

text \<open>
  The embedding follows the configuration of \<^verbatim>\<open>port/stack_trace.cc\<close> that is compiled on
  Linux with \<^verbatim>\<open>ROCKSDB_BACKTRACE\<close> (the second branch of the outer \<^verbatim>\<open>#if\<close>, with the
  \<^verbatim>\<open>OS_LINUX\<close> variants of \<^verbatim>\<open>GetExecutableName\<close> and \<^verbatim>\<open>PrintStackTraceLine\<close>).
  The remaining build switches are the fields of \<open>build\<close>.

  Every call into libc or the kernel is an \<open>event\<close>, appended to the trace of the process
  in the order in which the code makes it. What the operating system answers is read from
  the record \<open>os\<close>; an answer that may differ from one call to the next takes the number of
  events so far as its time.
\<close>

type_synonym addr = "64 word" \<comment> \<open>a \<^verbatim>\<open>void*\<close> frame: a return address\<close>

datatype arg = AInt int | AStr string | APtr addr

datatype handler = SIG_DFL | StackTraceHandler_fn

datatype event =
    Signal int handler \<comment> \<open>\<^verbatim>\<open>signal(sig, h)\<close>\<close>
  | Raise int \<comment> \<open>\<^verbatim>\<open>raise(sig)\<close>\<close>
  | Fprintf string "arg list" \<comment> \<open>\<^verbatim>\<open>fprintf(stderr, fmt, args...)\<close>\<close>
  | Prctl \<comment> \<open>\<^verbatim>\<open>prctl(PR_SET_PTRACER, PR_SET_PTRACER_ANY, 0, 0, 0)\<close>\<close>
  | Getenv string
  | Getpid
  | Gettid
  | Readlink string "arg list" \<comment> \<open>\<^verbatim>\<open>readlink\<close> of the path rendered by \<^verbatim>\<open>snprintf\<close>\<close>
  | Popen string "arg list" \<comment> \<open>\<^verbatim>\<open>popen\<close> of the command rendered by \<^verbatim>\<open>snprintf\<close>\<close>
  | Pclose
  | Fork
  | Dup2 int int
  | Close int
  | Execlp "arg list" \<comment> \<open>\<^verbatim>\<open>execlp(file, arg0, ...)\<close>; a number stands for its \<^verbatim>\<open>%lld\<close> rendering\<close>
  | Waitpid int
  | Backtrace int \<comment> \<open>\<^verbatim>\<open>backtrace(frames, size)\<close>\<close>
  | BacktraceSymbols "addr list" int \<comment> \<open>\<^verbatim>\<open>backtrace_symbols(frames, size)\<close>\<close>
  | Malloc int
  | Free_symbols
  | Free_callstack

datatype fork_result = Child | Parent int | Fork_failed

datatype capture_site = In_PrintStack | In_SaveStack
  \<comment> \<open>the function that calls \<^verbatim>\<open>backtrace\<close>: \<^verbatim>\<open>PrintStack(int)\<close> at line 221, \<^verbatim>\<open>SaveStack\<close> at line 234\<close>

datatype wait_status = Exited int | Signaled int | Other_status

record build =
  ROCKSDB_DLL :: bool \<comment> \<open>\<^verbatim>\<open>defined(ROCKSDB_DLL)\<close>; \<^verbatim>\<open>OS_LINUX\<close> holds throughout\<close>
  PR_SET_PTRACER_ANY_defined :: bool
  SANITIZE_THREAD :: bool \<comment> \<open>\<^verbatim>\<open>defined(__SANITIZE_THREAD__)\<close>\<close>

record os =
  getenv_os :: "string \<Rightarrow> string option"
  getpid_os :: int
  gettid_os :: int
  readlink_os :: "nat \<Rightarrow> string option"
    \<comment> \<open>target of \<^verbatim>\<open>/proc/<pid>/exe\<close> as \<^verbatim>\<open>readlink\<close> finds it at a time; \<open>None\<close> is the result -1\<close>
  popen_os :: "nat \<Rightarrow> addr \<Rightarrow> string \<Rightarrow> string option"
    \<comment> \<open>\<open>None\<close>: \<^verbatim>\<open>popen\<close> returns a null stream; \<open>Some bytes\<close>: all that the child
        writes (its standard error included, by \<^verbatim>\<open>2>&1\<close>) before it ends\<close>
  capture_pc :: "capture_site \<Rightarrow> addr"
    \<comment> \<open>entry 0 of a capture: the return address of \<^verbatim>\<open>backtrace\<close> inside the capturing function\<close>
  capture_return :: "capture_site \<Rightarrow> addr"
    \<comment> \<open>entry 1 of a capture: the return address of the capturing function at its call site\<close>
  call_stack :: "addr list"
    \<comment> \<open>the entries from 2 on: the return addresses of the caller and of the frames below
        it, most recent first; the same for all captures made at one point of the caller\<close>
  backtrace_symbols_os :: "(addr \<Rightarrow> string) option"
    \<comment> \<open>\<open>None\<close>: \<^verbatim>\<open>backtrace_symbols\<close> returns null\<close>
  fork_os :: fork_result
  execlp_os :: bool \<comment> \<open>whether \<^verbatim>\<open>execlp\<close> replaces the process image\<close>
  waitpid_os :: wait_status \<comment> \<open>what \<^verbatim>\<open>wstatus\<close> holds after \<^verbatim>\<open>waitpid\<close>\<close>
  malloc_os :: "nat \<Rightarrow> int \<Rightarrow> bool" \<comment> \<open>whether \<^verbatim>\<open>malloc(size)\<close> at a time gives a block\<close>
  signal_os :: "int \<Rightarrow> bool" \<comment> \<open>whether \<^verbatim>\<open>signal(sig, _)\<close> succeeds\<close>
  strsignal_os :: "int \<Rightarrow> string"

text \<open>
  The state of the process: its trace, the function-local static \<^verbatim>\<open>executable\<close> of
  \<^verbatim>\<open>PrintStackTraceLine\<close> (\<open>None\<close> until its initialiser has run) and the signal
  dispositions.
\<close>

record world =
  trace :: "event list"
  executable :: "string option option"
  disposition :: "int \<Rightarrow> handler"

text \<open>
  How a call ends: it returns, or the process image has been replaced by \<^verbatim>\<open>execlp\<close>, or
  the code has left its arrays (undefined behaviour), after which nothing is known.
\<close>

datatype outcome = Returned | Replaced | Fault

definition emit :: "event \<Rightarrow> world \<Rightarrow> world" where
  "emit e w = w\<lparr>trace := trace w @ [e]\<rparr>"

definition now :: "world \<Rightarrow> nat" where
  "now w = length (trace w)"

definition new_events :: "world \<Rightarrow> world \<Rightarrow> event list" where
  "new_events w w' = drop (length (trace w)) (trace w')"

abbreviation NUL :: char where "NUL \<equiv> CHR 0x00"
abbreviation TAB :: char where "TAB \<equiv> CHR 0x09"
abbreviation NL :: char where "NL \<equiv> CHR 0x0A"

definition SIGILL :: int where "SIGILL = 4"
definition SIGABRT :: int where "SIGABRT = 6"
definition SIGBUS :: int where "SIGBUS = 7"
definition SIGSEGV :: int where "SIGSEGV = 11"

definition kLineMax :: int where "kLineMax = 256"
definition kMaxFrames :: int where "kMaxFrames = 100"

definition SIZE_MAX :: int where "SIZE_MAX = 18446744073709551615"

subsection \<open>libc on buffers\<close>

text \<open>
  \<^verbatim>\<open>fgets(line, n, f)\<close> moves at most \<open>n - 1\<close> bytes of the stream into the buffer, stops
  after a newline, and writes a terminator behind them; with nothing left to read it
  returns null. The result is the written part of the buffer and the rest of the stream.
\<close>

fun read_line :: "nat \<Rightarrow> string \<Rightarrow> string" where
  "read_line 0 s = []"
| "read_line (Suc k) [] = []"
| "read_line (Suc k) (c # s) = (if c = NL then [c] else c # read_line k s)"

definition fgets :: "int \<Rightarrow> string \<Rightarrow> (string \<times> string) option" where
  "fgets n f =
     (if f = [] then None
      else let chunk = read_line (nat (n - 1)) f in Some (chunk @ [NUL], drop (length chunk) f))"

definition strlen :: "string \<Rightarrow> int" where
  "strlen buf = int (length (takeWhile (\<lambda>c. c \<noteq> NUL) buf))"

definition c_str :: "string \<Rightarrow> string" where
  "c_str buf = takeWhile (\<lambda>c. c \<noteq> NUL) buf"

text \<open>\<^verbatim>\<open>size_t\<close> subtraction wraps around at \<open>SIZE_MAX + 1\<close>.\<close>

definition size_t_sub :: "int \<Rightarrow> int \<Rightarrow> int" where
  "size_t_sub a b = (a - b) mod (SIZE_MAX + 1)"

subsection \<open>GetExecutableName and PrintStackTraceLine\<close>

definition GetExecutableName :: "os \<Rightarrow> world \<Rightarrow> string option \<times> world" where
  "GetExecutableName os w =
     (let w1 = emit Getpid w;
          read = readlink_os os (now w1);
          w2 = emit (Readlink ''/proc/%d/exe'' [AInt (getpid_os os)]) w1
      in case read of
           None \<Rightarrow> (None, w2)
         | Some target \<Rightarrow> (Some (take 1023 target), w2))"

text \<open>
  The loop \<^verbatim>\<open>while (fgets(line, sizeof(line), f))\<close> of \<^verbatim>\<open>PrintStackTraceLine\<close>. The store
  \<^verbatim>\<open>line[strlen(line) - 1] = 0\<close> computes its index in \<^verbatim>\<open>size_t\<close>; an index outside the
  \<open>kLineMax\<close> bytes of \<^verbatim>\<open>line\<close> is a fault.
\<close>

function echo_lines :: "string \<Rightarrow> world \<Rightarrow> outcome \<times> world" where
  "echo_lines f w =
     (case fgets kLineMax f of
        None \<Rightarrow> (Returned, w)
      | Some (line, f') \<Rightarrow>
          (let idx = size_t_sub (strlen line) 1 in
           if kLineMax \<le> idx then (Fault, w)
           else echo_lines f' (emit (Fprintf (''%s'' @ [TAB]) [AStr (c_str (line[nat idx := NUL]))]) w)))"
  by pat_completeness auto

lemma read_line_nonempty: "0 < k \<Longrightarrow> f \<noteq> [] \<Longrightarrow> read_line k f \<noteq> []"
  by (cases k; cases f) auto

lemma read_line_length: "length (read_line k f) \<le> length f"
  by (induction k f rule: read_line.induct) auto

lemma fgets_shorter: "fgets kLineMax f = Some (line, f') \<Longrightarrow> length f' < length f"
  using read_line_nonempty [of "nat (kLineMax - 1)" f] read_line_length [of "nat (kLineMax - 1)" f]
  by (auto simp: fgets_def kLineMax_def Let_def split: if_splits)

termination echo_lines
  by (relation "measure (\<lambda>(f, w). length f)") (auto dest: fgets_shorter)

declare echo_lines.simps [simp del]

definition static_executable :: "os \<Rightarrow> world \<Rightarrow> string option \<times> world" where
  \<comment> \<open>\<^verbatim>\<open>static const char* executable = GetExecutableName();\<close> runs its initialiser once\<close>
  "static_executable os w =
     (case executable w of
        Some exe \<Rightarrow> (exe, w)
      | None \<Rightarrow> (let (exe, w1) = GetExecutableName os w in (exe, w1\<lparr>executable := Some exe\<rparr>)))"

definition PrintStackTraceLine :: "os \<Rightarrow> string option \<Rightarrow> addr \<Rightarrow> world \<Rightarrow> outcome \<times> world" where
  "PrintStackTraceLine os symbol frame w =
     (let (exe, w1) = static_executable os w;
          w2 = (case symbol of Some s \<Rightarrow> emit (Fprintf ''%s '' [AStr s]) w1 | None \<Rightarrow> w1)
      in case exe of
           Some path \<Rightarrow>
             (let f = popen_os os (now w2) frame path;
                  w3 = emit (Popen ''addr2line %p -e %s -f -C 2>&1'' [APtr frame, AStr path]) w2
              in case f of
                   Some out \<Rightarrow>
                     (case echo_lines out w3 of
                        (Returned, w4) \<Rightarrow> (Returned, emit (Fprintf [NL] []) (emit Pclose w4))
                      | (oc, w4) \<Rightarrow> (oc, w4))
                 | None \<Rightarrow> (Returned, emit (Fprintf [NL] []) w3))
         | None \<Rightarrow> (Returned, emit (Fprintf [NL] []) (emit (Fprintf '' %p'' [APtr frame]) w2)))"

subsection \<open>PrintStack on given frames\<close>

text \<open>
  \<^verbatim>\<open>backtrace_symbols\<close> describes each address on its own, or gives null for the whole
  array: \<open>backtrace_symbols_os\<close> is the description of an address, when there is one.
  Reading \<^verbatim>\<open>frames[i]\<close> outside the frames that the pointer gives access to is a fault,
  and so is a negative count handed to \<^verbatim>\<open>backtrace_symbols\<close>, which sizes its arrays by it.
\<close>

function print_frames_loop ::
  "os \<Rightarrow> (addr \<Rightarrow> string) option \<Rightarrow> addr list \<Rightarrow> int \<Rightarrow> int \<Rightarrow> world \<Rightarrow> outcome \<times> world" where
  "print_frames_loop os symbols frames num_frames i w =
     (if i < num_frames then
        (let w1 = emit (Fprintf ''#%-2d  '' [AInt i]) w in
         if i < 0 \<or> int (length frames) \<le> i then (Fault, w1)
         else
           (case PrintStackTraceLine os (map_option (\<lambda>describe. describe (frames ! nat i)) symbols)
                   (frames ! nat i) w1 of
              (Returned, w2) \<Rightarrow> print_frames_loop os symbols frames num_frames (i + 1) w2
            | (oc, w2) \<Rightarrow> (oc, w2)))
      else (Returned, w))"
  by pat_completeness auto
termination
  by (relation "measure (\<lambda>(os, symbols, frames, num_frames, i, w). nat (num_frames - i))") auto

declare print_frames_loop.simps [simp del]

definition PrintStack_frames :: "os \<Rightarrow> addr list \<Rightarrow> int \<Rightarrow> world \<Rightarrow> outcome \<times> world" where
  "PrintStack_frames os frames num_frames w =
     (let w1 = emit (BacktraceSymbols (take (nat num_frames) frames) num_frames) w in
      if num_frames < 0 \<or> int (length frames) < num_frames then (Fault, w1)
      else
        (case print_frames_loop os (backtrace_symbols_os os) frames num_frames 0 w1 of
           (Returned, w2) \<Rightarrow> (Returned, emit Free_symbols w2)
         | (oc, w2) \<Rightarrow> (oc, w2)))"

subsection \<open>PrintStack with a number of frames to skip\<close>

definition bt_in_gdb :: string where
  "bt_in_gdb =
     ''frame apply level 4 5 6 7 8 9 10 11 12 13 14 15 16 17 18 19 20 '' @
     ''21 22 23 24 25 26 27 28 29 30 31 32 33 34 35 36 37 38 39 40 41 '' @
     ''42 43 44 -q frame''"

definition exited_success :: "wait_status \<Rightarrow> bool" where
  \<comment> \<open>\<^verbatim>\<open>WIFEXITED(wstatus) && WEXITSTATUS(wstatus) == EXIT_SUCCESS\<close>\<close>
  "exited_success st = (case st of Exited code \<Rightarrow> code = 0 | _ \<Rightarrow> False)"

definition debug_flag :: "string option \<Rightarrow> bool" where
  \<comment> \<open>\<^verbatim>\<open>debug_env != nullptr && strlen(debug_env) > 0\<close>\<close>
  "debug_flag debug_env = (case debug_env of None \<Rightarrow> False | Some s \<Rightarrow> 0 < strlen s)"

definition gdb_failed_notice :: event where
  "gdb_failed_notice =
     Fprintf (''GDB failed; falling back on backtrace+addr2line...'' @ [NL]) []"

text \<open>
  The block \<^verbatim>\<open>if (linux_dll || debug) { ... }\<close>. Its result \<open>Some oc\<close> is a \<^verbatim>\<open>return\<close> inside
  the block (or the end of this process image); \<open>None\<close> is control arriving behind the
  block, after the notice has been printed.
\<close>

definition attach_gdb ::
  "build \<Rightarrow> os \<Rightarrow> string option \<Rightarrow> world \<Rightarrow> outcome option \<times> world" where
  "attach_gdb b os debug_env w =
     (let debug = debug_flag debug_env;
          w1 = (if PR_SET_PTRACER_ANY_defined b then emit Prctl w else w);
          w2 = emit Getpid w1;
          use_pid = getenv_os os ''ROCKSDB_DEBUG_USE_PID'';
          w3 = emit (Getenv ''ROCKSDB_DEBUG_USE_PID'') w2;
          (attach_id, w4) =
            (if use_pid = None then (gettid_os os, emit Gettid w3) else (getpid_os os, w3));
          child_pid = fork_os os;
          w5 = emit Fork w4
      in case child_pid of
           Child \<Rightarrow>
             (if debug then
                (let w6 = emit (Fprintf (''Invoking GDB for debugging (ROCKSDB_DEBUG=%s)...'' @ [NL])
                                  [AStr (case debug_env of None \<Rightarrow> [] | Some s \<Rightarrow> c_str s)]) w5;
                     w7 = emit (Execlp [AStr ''gdb'', AStr ''gdb'', AStr ''-p'', AInt attach_id]) w6
                 in (Some (if execlp_os os then Replaced else Returned), w7))
              else
                (let w6 = emit (Fprintf (''Invoking GDB for stack trace...'' @ [NL]) []) w5;
                     w7 = emit (Dup2 2 1) w6;
                     w8 = emit (Close 0) w7;
                     w9 = emit (Execlp [AStr ''gdb'', AStr ''gdb'', AStr ''-n'', AStr ''-batch'',
                                        AStr ''-p'', AInt attach_id, AStr ''-ex'',
                                        AStr bt_in_gdb]) w8
                 in (Some (if execlp_os os then Replaced else Returned), w9)))
         | _ \<Rightarrow>
             (let w6 = emit (Waitpid (case child_pid of Parent pid \<Rightarrow> pid | _ \<Rightarrow> -1)) w5 in
              if exited_success (waitpid_os os) then (Some Returned, w6)
              else (None, emit gdb_failed_notice w6)))"

text \<open>
  Lines 218 to 222: the capture into the local array of \<open>kMaxFrames\<close> entries and the
  print of what lies behind \<^verbatim>\<open>&frames[first_frames_to_skip]\<close>. A pointer outside the array
  (and its one-past-the-end position) is a fault.
\<close>

definition backtrace :: "os \<Rightarrow> capture_site \<Rightarrow> int \<Rightarrow> addr list" where
  \<comment> \<open>the entries that \<^verbatim>\<open>backtrace(frames, n)\<close> writes; their number is its result\<close>
  "backtrace os site n =
     take (nat n) (capture_pc os site # capture_return os site # call_stack os)"

definition unwind_and_print :: "os \<Rightarrow> int \<Rightarrow> world \<Rightarrow> outcome \<times> world" where
  "unwind_and_print os first_frames_to_skip w =
     (let frames = backtrace os In_PrintStack kMaxFrames;
          num_frames = int (length frames);
          w1 = emit (Backtrace kMaxFrames) w
      in if first_frames_to_skip < 0 \<or> kMaxFrames < first_frames_to_skip then (Fault, w1)
         else PrintStack_frames os (drop (nat first_frames_to_skip) frames)
                (num_frames - first_frames_to_skip) w1)"

definition PrintStack_skip :: "build \<Rightarrow> os \<Rightarrow> int \<Rightarrow> world \<Rightarrow> outcome \<times> world" where
  "PrintStack_skip b os first_frames_to_skip w =
     (let linux_dll = ROCKSDB_DLL b;
          debug_env = getenv_os os ''ROCKSDB_DEBUG'';
          w1 = emit (Getenv ''ROCKSDB_DEBUG'') w;
          debug = debug_flag debug_env
      in if linux_dll \<or> debug then
           (case attach_gdb b os debug_env w1 of
              (Some oc, w2) \<Rightarrow> (oc, w2)
            | (None, w2) \<Rightarrow> unwind_and_print os first_frames_to_skip w2)
         else unwind_and_print os first_frames_to_skip w1)"

subsection \<open>SaveStack and PrintAndFreeStack\<close>

text \<open>
  A saved stack is the block that \<^verbatim>\<open>malloc\<close> gave, with its contents; \<open>None\<close> is a null
  pointer. \<^verbatim>\<open>SaveStack\<close> stores \<^verbatim>\<open>*num_frames\<close> before it allocates and copies, so the
  count is part of the result also when the copy faults. The size handed to \<^verbatim>\<open>malloc\<close> and
  \<^verbatim>\<open>memcpy\<close> is \<^verbatim>\<open>sizeof(void*) * *num_frames\<close> in \<^verbatim>\<open>size_t\<close>, with 8-byte pointers; a copy
  of no bytes moves nothing. A capture count minus the skip leaves the range of \<^verbatim>\<open>int\<close>
  only for a negative skip, where the copy faults in any case.
\<close>

definition SaveStack :: "os \<Rightarrow> int \<Rightarrow> world \<Rightarrow> outcome \<times> int \<times> addr list option \<times> world" where
  "SaveStack os first_frames_to_skip w =
     (let frames = backtrace os In_SaveStack kMaxFrames;
          count = int (length frames);
          w1 = emit (Backtrace kMaxFrames) w;
          num_frames = count - first_frames_to_skip;
          bytes = (8 * num_frames) mod (SIZE_MAX + 1);
          allocated = malloc_os os (now w1) bytes;
          w2 = emit (Malloc bytes) w1
      in if bytes = 0 then (Returned, num_frames, (if allocated then Some [] else None), w2)
         else if \<not> allocated \<or> first_frames_to_skip < 0
                 \<or> 8 * kMaxFrames < 8 * first_frames_to_skip + bytes
           then (Fault, num_frames, None, w2)
         else (Returned, num_frames,
               Some (take (nat num_frames) (drop (nat first_frames_to_skip) frames)), w2))"

definition PrintAndFreeStack :: "os \<Rightarrow> addr list option \<Rightarrow> int \<Rightarrow> world \<Rightarrow> outcome \<times> world" where
  "PrintAndFreeStack os callstack num_frames w =
     (case PrintStack_frames os (case callstack of None \<Rightarrow> [] | Some block \<Rightarrow> block) num_frames w of
        (Returned, w1) \<Rightarrow> (Returned, emit Free_callstack w1)
      | (oc, w1) \<Rightarrow> (oc, w1))"

text \<open>A caller that saves the stack and at once prints and releases what it saved.\<close>

definition SaveStack_then_PrintAndFreeStack :: "os \<Rightarrow> int \<Rightarrow> world \<Rightarrow> outcome \<times> world" where
  "SaveStack_then_PrintAndFreeStack os first_frames_to_skip w =
     (case SaveStack os first_frames_to_skip w of
        (Returned, num_frames, callstack, w1) \<Rightarrow> PrintAndFreeStack os callstack num_frames w1
      | (oc, num_frames, callstack, w1) \<Rightarrow> (oc, w1))"

subsection \<open>The signal handler and its installation\<close>

definition signal_call :: "os \<Rightarrow> int \<Rightarrow> handler \<Rightarrow> world \<Rightarrow> world" where
  \<comment> \<open>\<^verbatim>\<open>signal(sig, h)\<close> with its result ignored\<close>
  "signal_call os sig h w =
     (let w1 = emit (Signal sig h) w in
      if signal_os os sig then w1\<lparr>disposition := (disposition w1)(sig := h)\<rparr> else w1)"

definition tsan_note :: string where
  "tsan_note =
     ''==> NOTE: any above warnings about '' @ [CHR 0x22] @ ''signal-unsafe call'' @ [CHR 0x22] @
       '' are'' @ [NL] @
     ''==> ignorable, as they are expected when generating a stack'' @ [NL] @
     ''==> trace because of a signal under TSAN. Consider why the'' @ [NL] @
     ''==> signal was generated to begin with, and the stack trace'' @ [NL] @
     ''==> in the TSAN warning can be useful for that. (The stack'' @ [NL] @
     ''==> trace printed by the signal handler is likely obscured'' @ [NL] @
     ''==> by TSAN output.)'' @ [NL]"

definition received_signal :: "os \<Rightarrow> int \<Rightarrow> event" where
  "received_signal os sig =
     Fprintf (''Received signal %d (%s)'' @ [NL]) [AInt sig, AStr (strsignal_os os sig)]"

definition StackTraceHandler :: "build \<Rightarrow> os \<Rightarrow> int \<Rightarrow> world \<Rightarrow> outcome \<times> world" where
  "StackTraceHandler b os sig w =
     (let w1 = signal_call os sig SIG_DFL w;
          w2 = emit (received_signal os sig) w1
      in case PrintStack_skip b os 3 w2 of
           (Returned, w3) \<Rightarrow>
             (let w4 = (if SANITIZE_THREAD b then emit (Fprintf tsan_note []) w3 else w3)
              in (Returned, emit (Raise sig) w4))
         | (oc, w3) \<Rightarrow> (oc, w3))"

definition InstallStackTraceHandler :: "build \<Rightarrow> os \<Rightarrow> world \<Rightarrow> world" where
  "InstallStackTraceHandler b os w =
     (let w1 = signal_call os SIGILL StackTraceHandler_fn w;
          w2 = signal_call os SIGSEGV StackTraceHandler_fn w1;
          w3 = signal_call os SIGBUS StackTraceHandler_fn w2;
          w4 = signal_call os SIGABRT StackTraceHandler_fn w3
      in if PR_SET_PTRACER_ANY_defined b then emit Prctl w4 else w4)"

section \<open>Observations on traces\<close>

text \<open>
  What a trace shows of the printing: the indices of the frame entries (the arguments of
  the format \<^verbatim>\<open>#%-2d\<close>), the frames handed to the symbolizer (printed raw by \<^verbatim>\<open>%p\<close> or
  given to \<^verbatim>\<open>addr2line\<close>), the arrays handed to \<^verbatim>\<open>backtrace_symbols\<close> with their counts,
  and the queries for the path of the executable.
\<close>

definition frame_number :: "event \<Rightarrow> int list" where
  "frame_number e = (case e of Fprintf fmt [AInt i] \<Rightarrow> if fmt = ''#%-2d  '' then [i] else [] | _ \<Rightarrow> [])"

definition frame_numbers :: "event list \<Rightarrow> int list" where
  "frame_numbers evs = concat (map frame_number evs)"

definition frame_address :: "event \<Rightarrow> addr list" where
  "frame_address e =
     (case e of
        Fprintf fmt [APtr a] \<Rightarrow> if fmt = '' %p'' then [a] else []
      | Popen cmd [APtr a, AStr path] \<Rightarrow> [a]
      | _ \<Rightarrow> [])"

definition frame_addresses :: "event list \<Rightarrow> addr list" where
  "frame_addresses evs = concat (map frame_address evs)"

definition is_readlink :: "event \<Rightarrow> bool" where
  "is_readlink e = (case e of Readlink path args \<Rightarrow> True | _ \<Rightarrow> False)"

definition capture :: "event \<Rightarrow> (addr list \<times> int) list" where
  "capture e = (case e of BacktraceSymbols fs n \<Rightarrow> [(fs, n)] | _ \<Rightarrow> [])"

definition captures :: "event list \<Rightarrow> (addr list \<times> int) list" where
  "captures evs = concat (map capture evs)"

definition is_echo :: "event \<Rightarrow> bool" where
  "is_echo e = (case e of Fprintf fmt [AStr s] \<Rightarrow> fmt = ''%s'' @ [TAB] | _ \<Rightarrow> False)"

text \<open>
  For the proofs: a later state extends an earlier one when its trace continues the
  earlier trace and the dispositions are the same; \<open>count_from i m\<close> are the \<open>m\<close> indices
  from \<open>i\<close> on; \<open>loop_facts\<close> collects what holds of a run of the loop of \<^verbatim>\<open>PrintStack\<close>
  from index \<open>i\<close>.
\<close>

definition extends :: "world \<Rightarrow> world \<Rightarrow> bool" where
  "extends w w' = (prefix (trace w) (trace w') \<and> disposition w' = disposition w)"

definition executable_queries :: "event list \<Rightarrow> nat" where
  "executable_queries evs = length (filter is_readlink evs)"

definition count_from :: "int \<Rightarrow> nat \<Rightarrow> int list" where
  "count_from i m = map (\<lambda>k. i + int k) [0..<m]"

definition loop_facts :: "int \<Rightarrow> addr list \<Rightarrow> int \<Rightarrow> world \<Rightarrow> outcome \<Rightarrow> world \<Rightarrow> event list \<Rightarrow> bool" where
  "loop_facts num_frames frames i w oc w' evs =
     (extends w w' \<and> oc \<noteq> Replaced \<and> captures evs = []
      \<and> frame_numbers evs = count_from i (length (frame_numbers evs))
      \<and> (0 \<le> i \<longrightarrow> prefix (frame_addresses evs) (drop (nat i) frames))
      \<and> (oc = Returned \<longrightarrow>
            length (frame_numbers evs) = nat (num_frames - i)
            \<and> length (frame_addresses evs) = nat (num_frames - i))
      \<and> (\<forall>cached. executable w = Some cached \<longrightarrow>
            executable w' = Some cached \<and> executable_queries evs = 0)
      \<and> executable_queries evs \<le> 1
      \<and> (executable w' = None \<longrightarrow> executable_queries evs = 0))"

text \<open>
  The invariant of a process: its trace holds at most one query for the path of the
  executable, and none as long as the static \<^verbatim>\<open>executable\<close> is uninitialised.
\<close>

definition resolved_at_most_once :: "world \<Rightarrow> bool" where
  "resolved_at_most_once w =
     (executable_queries (trace w) \<le> 1
      \<and> (executable w = None \<longrightarrow> executable_queries (trace w) = 0))"

text \<open>The inputs of the examples: a build, a process that has just started, a system.\<close>

definition linux_build :: build where
  "linux_build = \<lparr>ROCKSDB_DLL = False, PR_SET_PTRACER_ANY_defined = True, SANITIZE_THREAD = False\<rparr>"

definition boot :: world where
  "boot = \<lparr>trace = [], executable = None, disposition = (\<lambda>sig. SIG_DFL)\<rparr>"

definition plain_os :: os where
  "plain_os =
     \<lparr>getenv_os = (\<lambda>name. None), getpid_os = 100, gettid_os = 101,
      readlink_os = (\<lambda>t. None), popen_os = (\<lambda>t frame path. None),
      capture_pc = (\<lambda>site. case site of In_PrintStack \<Rightarrow> 0x401136 | In_SaveStack \<Rightarrow> 0x4011c8),
      capture_return = (\<lambda>site. case site of In_PrintStack \<Rightarrow> 0x401290 | In_SaveStack \<Rightarrow> 0x4012a7),
      call_stack = [0x4013f2, 0x401560, 0x4017a4],
      backtrace_symbols_os = None, fork_os = Parent 200, execlp_os = False,
      waitpid_os = Exited 1, malloc_os = (\<lambda>t bytes. True), signal_os = (\<lambda>sig. True),
      strsignal_os = (\<lambda>sig. ''Aborted'')\<rparr>"

definition nul_os :: os where
  \<comment> \<open>the path of the executable is known; the tool's output starts with a zero byte\<close>
  "nul_os = plain_os\<lparr>readlink_os := (\<lambda>t. Some ''/usr/bin/db_bench''),
                      popen_os := (\<lambda>t frame path. Some [NUL, NL])\<rparr>"

definition moving_os :: os where
  "moving_os = plain_os\<lparr>readlink_os := (\<lambda>t. if t < 5 then None else Some ''/usr/bin/db_bench'')\<rparr>"

definition dll_build :: build where
  "dll_build = linux_build\<lparr>ROCKSDB_DLL := True\<rparr>"

definition no_tool_os :: os where
  \<comment> \<open>the path of the executable is known; \<^verbatim>\<open>popen\<close> gives no stream\<close>
  "no_tool_os = plain_os\<lparr>readlink_os := (\<lambda>t. Some ''/usr/bin/db_bench'')\<rparr>"

definition not_found_os :: os where
  \<comment> \<open>the path is known; the shell of \<^verbatim>\<open>popen\<close> finds no \<^verbatim>\<open>addr2line\<close> and says so\<close>
  "not_found_os =
     plain_os\<lparr>readlink_os := (\<lambda>t. Some ''/usr/bin/db_bench''),
              popen_os := (\<lambda>t frame path. Some ''sh: 1: addr2line: not found\<newline>'')\<rparr>"

definition debug_os :: os where
  \<comment> \<open>\<^verbatim>\<open>ROCKSDB_DEBUG=1\<close>; this is the parent, and the debugger exits with status 1\<close>
  "debug_os = plain_os\<lparr>getenv_os := (\<lambda>name. if name = ''ROCKSDB_DEBUG'' then Some ''1'' else None)\<rparr>"

definition gdb_ok_os :: os where
  \<comment> \<open>as \<open>debug_os\<close>, but the debugger exits with status 0\<close>
  "gdb_ok_os = debug_os\<lparr>waitpid_os := Exited 0\<rparr>"

definition child_os :: os where
  \<comment> \<open>as \<open>debug_os\<close>, seen from the forked child, whose \<^verbatim>\<open>execlp\<close> fails\<close>
  "child_os = debug_os\<lparr>fork_os := Child\<rparr>"

definition absent_gdb_os :: os where
  \<comment> \<open>no \<^verbatim>\<open>gdb\<close> to execute; the child, back in the caller after the failed \<^verbatim>\<open>execlp\<close>,
      has ended with \<^verbatim>\<open>exit(0)\<close>\<close>
  "absent_gdb_os = plain_os\<lparr>execlp_os := False, waitpid_os := Exited 0\<rparr>"

section \<open>Traces only grow\<close>

lemma trace_emit [simp]: "trace (emit e w) = trace w @ [e]"
  and executable_emit [simp]: "executable (emit e w) = executable w"
  and disposition_emit [simp]: "disposition (emit e w) = disposition w"
  by (simp_all add: emit_def)

lemma now_emit [simp]: "now (emit e w) = Suc (now w)"
  by (simp add: now_def)

lemma extends_refl [simp]: "extends w w"
  by (simp add: extends_def)

lemma extends_emit [simp]: "extends w (emit e w)"
  by (simp add: extends_def)

lemma extends_trans: "extends w w' \<Longrightarrow> extends w' w'' \<Longrightarrow> extends w w''"
  by (auto simp: extends_def)

lemma extends_emit_right: "extends w w' \<Longrightarrow> extends w (emit e w')"
  by (auto simp: extends_def intro: prefix_order.trans)

lemma new_events_self [simp]: "new_events w w = []"
  by (simp add: new_events_def)

lemma new_events_emit [simp]: "new_events w (emit e w) = [e]"
  by (simp add: new_events_def)

lemma new_events_append:
  "extends w w' \<Longrightarrow> extends w' w'' \<Longrightarrow> new_events w w'' = new_events w w' @ new_events w' w''"
  by (auto simp: extends_def new_events_def prefix_def)

lemma trace_new_events: "extends w w' \<Longrightarrow> trace w' = trace w @ new_events w w'"
  by (auto simp: extends_def new_events_def prefix_def)

lemma new_events_emit_right:
  "extends w w' \<Longrightarrow> new_events w (emit e w') = new_events w w' @ [e]"
  using new_events_append [of w w' "emit e w'"] by simp

lemma echo_lines_extends:
  "extends w (snd (echo_lines f w)) \<and> executable (snd (echo_lines f w)) = executable w
   \<and> list_all is_echo (new_events w (snd (echo_lines f w)))
   \<and> fst (echo_lines f w) \<noteq> Replaced"
proof (induction f w rule: echo_lines.induct)
  case (1 f w)
  show ?case
  proof (cases "fgets kLineMax f")
    case None
    then show ?thesis by (simp add: echo_lines.simps [of f w])
  next
    case (Some p)
    obtain line f' where p: "p = (line, f')" by (cases p)
    let ?idx = "size_t_sub (strlen line) 1"
    show ?thesis
    proof (cases "kLineMax \<le> ?idx")
      case True
      with Some p show ?thesis by (simp add: echo_lines.simps [of f w])
    next
      case False
      let ?e = "Fprintf (''%s'' @ [TAB]) [AStr (c_str (line[nat ?idx := NUL]))]"
      let ?w1 = "emit ?e w"
      let ?w2 = "snd (echo_lines f' ?w1)"
      from Some p False have eq: "echo_lines f w = echo_lines f' ?w1"
        by (simp add: echo_lines.simps [of f w])
      from "1.IH" [OF Some p [symmetric] refl False]
      have ih: "extends ?w1 ?w2" "executable ?w2 = executable ?w1"
        "list_all is_echo (new_events ?w1 ?w2)" "fst (echo_lines f' ?w1) \<noteq> Replaced"
        by simp_all
      have ext: "extends w ?w2"
        using extends_trans [OF extends_emit ih(1)] .
      have "new_events w ?w2 = ?e # new_events ?w1 ?w2"
        using new_events_append [OF extends_emit ih(1)] by simp
      moreover have "is_echo ?e" by (simp add: is_echo_def)
      ultimately show ?thesis using ih ext eq by simp
    qed
  qed
qed

lemma frame_numbers_simps [simp]:
  "frame_numbers [] = []"
  "frame_numbers (e # evs) = frame_number e @ frame_numbers evs"
  "frame_numbers (evs @ evs') = frame_numbers evs @ frame_numbers evs'"
  by (simp_all add: frame_numbers_def)

lemma frame_addresses_simps [simp]:
  "frame_addresses [] = []"
  "frame_addresses (e # evs) = frame_address e @ frame_addresses evs"
  "frame_addresses (evs @ evs') = frame_addresses evs @ frame_addresses evs'"
  by (simp_all add: frame_addresses_def)

lemma captures_simps [simp]:
  "captures [] = []"
  "captures (e # evs) = capture e @ captures evs"
  "captures (evs @ evs') = captures evs @ captures evs'"
  by (simp_all add: captures_def)

lemma executable_queries_simps [simp]:
  "executable_queries [] = 0"
  "executable_queries (e # evs) = (if is_readlink e then 1 else 0) + executable_queries evs"
  "executable_queries (evs @ evs') = executable_queries evs + executable_queries evs'"
  by (simp_all add: executable_queries_def)

lemma echo_projections:
  "list_all is_echo evs \<Longrightarrow>
     frame_numbers evs = [] \<and> frame_addresses evs = [] \<and> captures evs = []
     \<and> executable_queries evs = 0"
  by (induction evs)
     (auto simp: is_echo_def frame_number_def frame_address_def capture_def is_readlink_def
           split: event.splits list.splits arg.splits)

lemma static_executable_facts:
  assumes "static_executable os w = (exe, w1)"
  shows "extends w w1" and "executable w1 = Some exe"
    and "executable w = Some cached \<Longrightarrow> exe = cached \<and> w1 = w"
    and "executable w = None \<Longrightarrow>
           exe = map_option (take 1023) (readlink_os os (Suc (now w)))
           \<and> new_events w w1 = [Getpid, Readlink ''/proc/%d/exe'' [AInt (getpid_os os)]]"
  using assms
  by (auto simp: static_executable_def GetExecutableName_def Let_def extends_def new_events_def
           split: option.splits)

lemma new_events_eqI: "trace w' = trace w @ evs \<Longrightarrow> new_events w w' = evs"
  by (simp add: new_events_def)

lemma extendsI: "trace w' = trace w @ evs \<Longrightarrow> disposition w' = disposition w \<Longrightarrow> extends w w'"
  by (simp add: extends_def)

lemma extends_disposition: "extends w w' \<Longrightarrow> disposition w' = disposition w"
  by (simp add: extends_def)

lemma projections_simps [simp]:
  "frame_number (Fprintf fmt [AInt i]) = (if fmt = ''#%-2d  '' then [i] else [])"
  "frame_number (Fprintf fmt []) = []"
  "frame_number (Fprintf fmt [AStr s]) = []"
  "frame_number (Fprintf fmt [APtr a]) = []"
  "frame_number (Popen cmd args) = []"
  "frame_number Pclose = []"
  "frame_number Getpid = []"
  "frame_number (Readlink path args) = []"
  "frame_address (Fprintf fmt [AInt i]) = []"
  "frame_address (Fprintf fmt []) = []"
  "frame_address (Fprintf fmt [AStr s]) = []"
  "frame_address (Fprintf fmt [APtr a]) = (if fmt = '' %p'' then [a] else [])"
  "frame_address (Popen cmd [APtr a, AStr path]) = [a]"
  "frame_address Pclose = []"
  "frame_address Getpid = []"
  "frame_address (Readlink path args) = []"
  "capture (Fprintf fmt args) = []"
  "capture (Popen cmd args) = []"
  "capture Pclose = []"
  "capture Getpid = []"
  "capture (Readlink path args) = []"
  "capture (BacktraceSymbols fs n) = [(fs, n)]"
  "is_readlink (Fprintf fmt args) = False"
  "is_readlink (Popen cmd args) = False"
  "is_readlink Pclose = False"
  "is_readlink Getpid = False"
  "is_readlink (Readlink path args) = True"
  by (simp_all add: frame_number_def frame_address_def capture_def is_readlink_def)

lemma PrintStackTraceLine_facts:
  assumes "PrintStackTraceLine os symbol frame w = (oc, w')"
  shows "extends w w'"
    and "executable w' = Some (fst (static_executable os w))"
    and "oc \<noteq> Replaced"
    and "frame_numbers (new_events w w') = []"
    and "captures (new_events w w') = []"
    and "frame_addresses (new_events w w') = [frame]"
    and "executable_queries (new_events w w') = (if executable w = None then 1 else 0)"
proof -
  obtain exe w1 where se: "static_executable os w = (exe, w1)"
    by (cases "static_executable os w")
  note f1 = static_executable_facts [OF se]
  define init where "init = new_events w w1"
  have t1: "trace w1 = trace w @ init"
    using f1(1) by (simp add: init_def trace_new_events)
  have init: "frame_numbers init = []" "captures init = []" "frame_addresses init = []"
    "executable_queries init = (if executable w = None then 1 else 0)"
    using f1(3,4) by (cases "executable w"; simp add: init_def)+
  define sym where "sym = (case symbol of Some s \<Rightarrow> [Fprintf ''%s '' [AStr s]] | None \<Rightarrow> [])"
  define w2 where "w2 = (case symbol of Some s \<Rightarrow> emit (Fprintf ''%s '' [AStr s]) w1 | None \<Rightarrow> w1)"
  have t2: "trace w2 = trace w @ init @ sym" "executable w2 = Some exe"
    "disposition w2 = disposition w"
    using t1 f1(2) extends_disposition [OF f1(1)] by (auto simp: w2_def sym_def split: option.splits)
  have sym: "frame_numbers sym = []" "captures sym = []" "frame_addresses sym = []"
    "executable_queries sym = 0"
    by (auto simp: sym_def split: option.splits)
  have "\<exists>body. trace w' = trace w2 @ body \<and> executable w' = executable w2
          \<and> disposition w' = disposition w2 \<and> oc \<noteq> Replaced
          \<and> frame_numbers body = [] \<and> captures body = [] \<and> frame_addresses body = [frame]
          \<and> executable_queries body = 0"
  proof (cases exe)
    case None
    with assms se show ?thesis
      by (auto simp: PrintStackTraceLine_def w2_def Let_def)
  next
    case (Some path)
    let ?w3 = "emit (Popen ''addr2line %p -e %s -f -C 2>&1'' [APtr frame, AStr path]) w2"
    show ?thesis
    proof (cases "popen_os os (now w2) frame path")
      case None
      with Some assms se show ?thesis
        by (auto simp: PrintStackTraceLine_def w2_def Let_def)
    next
      case (Some out)
      obtain oc4 w4 where el: "echo_lines out ?w3 = (oc4, w4)"
        by (cases "echo_lines out ?w3")
      define echo where "echo = new_events ?w3 w4"
      from echo_lines_extends [of ?w3 out] el
      have ex: "extends ?w3 w4" "executable w4 = executable ?w3" "list_all is_echo echo"
        and oc4: "oc4 \<noteq> Replaced"
        by (simp_all add: echo_def)
      have e: "trace w4 = trace ?w3 @ echo" "executable w4 = executable ?w3"
        "disposition w4 = disposition ?w3" "list_all is_echo echo"
        using trace_new_events [OF ex(1)] extends_disposition [OF ex(1)] ex(2,3)
        by (simp_all add: echo_def)
      note ep = echo_projections [OF e(4)]
      from assms se \<open>exe = Some path\<close> Some el
      have "(oc, w') = (case oc4 of Returned \<Rightarrow> (Returned, emit (Fprintf [NL] []) (emit Pclose w4))
                         | _ \<Rightarrow> (oc4, w4))"
        by (auto simp: PrintStackTraceLine_def w2_def Let_def split: outcome.splits)
      with e ep oc4 show ?thesis
        by (cases oc4) auto
    qed
  qed
  then obtain body where b: "trace w' = trace w2 @ body" "executable w' = executable w2"
    "disposition w' = disposition w2" "oc \<noteq> Replaced"
    "frame_numbers body = []" "captures body = []" "frame_addresses body = [frame]"
    "executable_queries body = 0"
    by blast
  have tr: "trace w' = trace w @ (init @ sym @ body)"
    using b(1) t2(1) by simp
  have ne: "new_events w w' = init @ sym @ body"
    using tr by (rule new_events_eqI)
  show "extends w w'" using tr b(3) t2(3) by (simp add: extendsI)
  show "executable w' = Some (fst (static_executable os w))" using b(2) t2(2) se by simp
  show "oc \<noteq> Replaced" by fact
  show "frame_numbers (new_events w w') = []" using ne init sym b by simp
  show "captures (new_events w w') = []" using ne init sym b by simp
  show "frame_addresses (new_events w w') = [frame]" using ne init sym b by simp
  show "executable_queries (new_events w w') = (if executable w = None then 1 else 0)"
    using ne init sym b by simp
qed

lemma count_from_0 [simp]: "count_from i 0 = []"
  by (simp add: count_from_def)

lemma count_from_Suc: "count_from i (Suc m) = i # count_from (i + 1) m"
  by (simp add: count_from_def upt_conv_Cons map_Suc_upt [symmetric] del: upt_Suc)

lemma length_count_from [simp]: "length (count_from i m) = m"
  by (simp add: count_from_def)

lemma print_frames_loop_facts:
  "loop_facts num_frames frames i w
     (fst (print_frames_loop os symbols frames num_frames i w))
     (snd (print_frames_loop os symbols frames num_frames i w))
     (new_events w (snd (print_frames_loop os symbols frames num_frames i w)))"
proof (induction os symbols frames num_frames i w rule: print_frames_loop.induct)
  case (1 os symbols frames num_frames i w)
  let ?e = "Fprintf ''#%-2d  '' [AInt i]"
  let ?w1 = "emit ?e w"
  show ?case
  proof (cases "i < num_frames")
    case False
    then show ?thesis
      by (simp add: print_frames_loop.simps [of os symbols frames num_frames i w] loop_facts_def)
  next
    case True
    note lt = True
    show ?thesis
    proof (cases "i < 0 \<or> int (length frames) \<le> i")
      case True
      with lt have "print_frames_loop os symbols frames num_frames i w = (Fault, ?w1)"
        by (simp add: print_frames_loop.simps [of os symbols frames num_frames i w])
      then show ?thesis
        using count_from_Suc [of i 0] by (simp add: loop_facts_def)
    next
      case False
      let ?frame = "frames ! nat i"
      obtain oc2 w2 where line:
        "PrintStackTraceLine os (map_option (\<lambda>describe. describe ?frame) symbols) ?frame ?w1 = (oc2, w2)"
        by (cases "PrintStackTraceLine os (map_option (\<lambda>describe. describe ?frame) symbols) ?frame ?w1")
      note lf = PrintStackTraceLine_facts [OF line]
      have ext2: "extends w w2"
        using extends_trans [OF extends_emit lf(1)] .
      have ne2: "new_events w w2 = ?e # new_events ?w1 w2"
        using new_events_append [OF extends_emit lf(1)] by simp
      have "nat i < length frames" "nat (i + 1) = Suc (nat i)"
        using False by auto
      then have dr: "drop (nat i) frames = ?frame # drop (nat (i + 1)) frames"
        by (simp add: Cons_nth_drop_Suc)
      have ex2: "executable w = Some cached \<Longrightarrow> executable w2 = Some cached" for cached
        using lf(2) by (simp add: static_executable_def)
      show ?thesis
      proof (cases "oc2 = Returned")
        case False
        with lt \<open>\<not> (i < 0 \<or> int (length frames) \<le> i)\<close> line
        have "print_frames_loop os symbols frames num_frames i w = (oc2, w2)"
          by (cases oc2) (simp_all add: print_frames_loop.simps [of os symbols frames num_frames i w])
        then show ?thesis
          using ext2 ne2 lf dr False ex2 count_from_Suc [of i 0]
          by (simp add: loop_facts_def)
      next
        case True
        let ?r = "print_frames_loop os symbols frames num_frames (i + 1) w2"
        from lt \<open>\<not> (i < 0 \<or> int (length frames) \<le> i)\<close> line True
        have eq: "print_frames_loop os symbols frames num_frames i w = ?r"
          by (simp add: print_frames_loop.simps [of os symbols frames num_frames i w])
        have ih: "loop_facts num_frames frames (i + 1) w2 (fst ?r) (snd ?r) (new_events w2 (snd ?r))"
          using "1.IH" [OF lt refl \<open>\<not> (i < 0 \<or> int (length frames) \<le> i)\<close> line [symmetric] True] .
        define rest where "rest = new_events w2 (snd ?r)"
        have ext3: "extends w (snd ?r)"
          using extends_trans [OF ext2] ih by (simp add: loop_facts_def)
        have ne3: "new_events w (snd ?r) = ?e # new_events ?w1 w2 @ rest"
          using new_events_append [OF ext2, of "snd ?r"] ih ne2
          by (simp add: loop_facts_def rest_def)
        have n1: "frame_numbers (new_events w (snd ?r)) = i # frame_numbers rest"
          using ne3 lf by simp
        have a1: "frame_addresses (new_events w (snd ?r)) = ?frame # frame_addresses rest"
          using ne3 lf by simp
        have c1: "captures (new_events w (snd ?r)) = captures rest"
          using ne3 lf by simp
        have q1: "executable_queries (new_events w (snd ?r)) =
                    (if executable w = None then 1 else 0) + executable_queries rest"
          using ne3 lf by simp
        have ex3: "executable w2 \<noteq> None"
          using lf(2) by simp
        from ih have r:
          "fst ?r \<noteq> Replaced" "captures rest = []"
          "frame_numbers rest = count_from (i + 1) (length (frame_numbers rest))"
          "prefix (frame_addresses rest) (drop (nat (i + 1)) frames)"
          "fst ?r = Returned \<Longrightarrow> length (frame_numbers rest) = nat (num_frames - (i + 1))
             \<and> length (frame_addresses rest) = nat (num_frames - (i + 1))"
          "\<And>cached. executable w2 = Some cached \<Longrightarrow>
             executable (snd ?r) = Some cached \<and> executable_queries rest = 0"
          using False by (simp_all add: loop_facts_def rest_def)
        have q2: "executable_queries rest = 0"
          using r(6) ex3 by auto
        have "frame_numbers (new_events w (snd ?r)) =
                count_from i (length (frame_numbers (new_events w (snd ?r))))"
          using n1 r(3) count_from_Suc [of i "length (frame_numbers rest)"] by simp
        moreover have "prefix (frame_addresses (new_events w (snd ?r))) (drop (nat i) frames)"
          using a1 r(4) dr by simp
        moreover have "fst ?r = Returned \<Longrightarrow>
            length (frame_numbers (new_events w (snd ?r))) = nat (num_frames - i)
            \<and> length (frame_addresses (new_events w (snd ?r))) = nat (num_frames - i)"
          using n1 a1 r(5) lt by auto
        moreover have "executable w = Some cached \<Longrightarrow>
            executable (snd ?r) = Some cached \<and> executable_queries (new_events w (snd ?r)) = 0"
          for cached
          using ex2 [of cached] r(6) [of cached] q1 by simp
        moreover have "executable_queries (new_events w (snd ?r)) \<le> 1"
          using q1 q2 by simp
        moreover have "executable (snd ?r) = None \<longrightarrow>
            executable_queries (new_events w (snd ?r)) = 0"
          using ex3 r(6) by auto
        ultimately show ?thesis
          using eq ext3 r(1,2) c1 unfolding loop_facts_def by simp
      qed
    qed
  qed
qed

lemma prefix_length_take: "prefix xs ys \<Longrightarrow> length xs = m \<Longrightarrow> xs = take m ys"
  by (auto simp: prefix_def)

lemma more_projections_simps [simp]:
  "frame_number (BacktraceSymbols fs n) = []" "frame_address (BacktraceSymbols fs n) = []"
  "is_readlink (BacktraceSymbols fs n) = False"
  "frame_number Free_symbols = []" "frame_address Free_symbols = []"
  "capture Free_symbols = []" "is_readlink Free_symbols = False"
  "frame_number (Backtrace m) = []" "frame_address (Backtrace m) = []"
  "capture (Backtrace m) = []" "is_readlink (Backtrace m) = False"
  "frame_number Free_callstack = []" "frame_address Free_callstack = []"
  "capture Free_callstack = []" "is_readlink Free_callstack = False"
  "frame_number (Malloc bytes) = []" "frame_address (Malloc bytes) = []"
  "capture (Malloc bytes) = []" "is_readlink (Malloc bytes) = False"
  by (simp_all add: frame_number_def frame_address_def capture_def is_readlink_def)

lemma PrintStack_frames_facts:
  assumes "PrintStack_frames os frames n w = (oc, w')"
  shows "extends w w'" and "oc \<noteq> Replaced"
    and "captures (new_events w w') = [(take (nat n) frames, n)]"
    and "frame_numbers (new_events w w') = count_from 0 (length (frame_numbers (new_events w w')))"
    and "prefix (frame_addresses (new_events w w')) frames"
    and "oc = Returned \<Longrightarrow> 0 \<le> n \<and> n \<le> int (length frames)
           \<and> frame_numbers (new_events w w') = count_from 0 (nat n)
           \<and> frame_addresses (new_events w w') = take (nat n) frames"
    and "executable w = Some cached \<Longrightarrow>
           executable w' = Some cached \<and> executable_queries (new_events w w') = 0"
    and "executable_queries (new_events w w') \<le> 1"
    and "executable w' = None \<Longrightarrow> executable_queries (new_events w w') = 0"
proof -
  let ?e = "BacktraceSymbols (take (nat n) frames) n"
  let ?w1 = "emit ?e w"
  let ?r = "print_frames_loop os (backtrace_symbols_os os) frames n 0 ?w1"
  define evs where "evs = new_events ?w1 (snd ?r)"
  have lf: "loop_facts n frames 0 ?w1 (fst ?r) (snd ?r) evs"
    unfolding evs_def by (rule print_frames_loop_facts)
  then have l: "extends ?w1 (snd ?r)" "fst ?r \<noteq> Replaced" "captures evs = []"
    "frame_numbers evs = count_from 0 (length (frame_numbers evs))"
    "prefix (frame_addresses evs) frames"
    "fst ?r = Returned \<Longrightarrow> length (frame_numbers evs) = nat n \<and> length (frame_addresses evs) = nat n"
    "executable w = Some cached \<Longrightarrow> executable (snd ?r) = Some cached \<and> executable_queries evs = 0"
    "executable_queries evs \<le> 1"
    "executable (snd ?r) = None \<Longrightarrow> executable_queries evs = 0"
    by (simp_all add: loop_facts_def)
  have tr: "trace (snd ?r) = trace w @ ?e # evs"
    using trace_new_events [OF l(1)] by (simp add: evs_def)
  have dp: "disposition (snd ?r) = disposition w"
    using extends_disposition [OF l(1)] by simp
  have "\<exists>tail. trace w' = trace w @ ?e # (if (n < 0 \<or> int (length frames) < n) then [] else evs) @ tail
          \<and> frame_numbers tail = [] \<and> frame_addresses tail = [] \<and> captures tail = []
          \<and> executable_queries tail = 0 \<and> disposition w' = disposition w
          \<and> (if (n < 0 \<or> int (length frames) < n) then oc = Fault \<and> executable w' = executable w
              else oc = fst ?r \<and> executable w' = executable (snd ?r))"
  proof (cases "(n < 0 \<or> int (length frames) < n)")
    case True
    with assms show ?thesis by (auto simp: PrintStack_frames_def Let_def)
  next
    case False
    with assms have "(oc, w') = (case ?r of (Returned, w2) \<Rightarrow> (Returned, emit Free_symbols w2)
                                  | (oc2, w2) \<Rightarrow> (oc2, w2))"
      by (simp add: PrintStack_frames_def Let_def)
    with False tr dp show ?thesis
      by (cases ?r; cases "fst ?r") auto
  qed
  then obtain tail where
    t: "trace w' = trace w @ ?e # (if (n < 0 \<or> int (length frames) < n) then [] else evs) @ tail"
      "frame_numbers tail = []" "frame_addresses tail = []" "captures tail = []"
      "executable_queries tail = 0" "disposition w' = disposition w"
      "if (n < 0 \<or> int (length frames) < n) then oc = Fault \<and> executable w' = executable w
       else oc = fst ?r \<and> executable w' = executable (snd ?r)"
    by blast
  have ne: "new_events w w' = ?e # (if (n < 0 \<or> int (length frames) < n) then [] else evs) @ tail"
    using t(1) by (rule new_events_eqI)
  show "extends w w'" using t(1,6) by (rule extendsI)
  show "oc \<noteq> Replaced" using t(7) l(2) by (auto split: if_splits)
  show "captures (new_events w w') = [(take (nat n) frames, n)]"
    using ne t l(3) by simp
  show "frame_numbers (new_events w w') = count_from 0 (length (frame_numbers (new_events w w')))"
    using ne t l(4) by simp
  show "prefix (frame_addresses (new_events w w')) frames"
    using ne t l(5) by simp
  show "0 \<le> n \<and> n \<le> int (length frames) \<and> frame_numbers (new_events w w') = count_from 0 (nat n)
           \<and> frame_addresses (new_events w w') = take (nat n) frames" if "oc = Returned"
  proof -
    from that t(7) have nf: "\<not> (n < 0 \<or> int (length frames) < n)" and r: "fst ?r = Returned"
      by (auto split: if_splits)
    from l(6) [OF r] l(4) prefix_length_take [OF l(5)] nf ne t show ?thesis by simp
  qed
  show "executable w' = Some cached \<and> executable_queries (new_events w w') = 0"
    if "executable w = Some cached"
    using l(7) [OF that] that ne t by (auto split: if_splits)
  show "executable_queries (new_events w w') \<le> 1"
    using ne t l(8) by simp
  show "executable_queries (new_events w w') = 0" if "executable w' = None"
    using that ne t l(9) by (auto split: if_splits)
qed

lemma count_from_0_eq: "count_from 0 m = map int [0..<m]"
  by (simp add: count_from_def)

lemma attach_gdb_facts:
  assumes "attach_gdb b os debug_env w = (res, w')"
  shows "extends w w'" and "executable w' = executable w"
    and "frame_numbers (new_events w w') = []" and "frame_addresses (new_events w w') = []"
    and "captures (new_events w w') = []" and "executable_queries (new_events w w') = 0"
    and "Backtrace kMaxFrames \<notin> set (new_events w w')"
    and "res = None \<longleftrightarrow> fork_os os \<noteq> Child \<and> \<not> exited_success (waitpid_os os)"
    and "res = None \<Longrightarrow> \<exists>pre. new_events w w' = pre @ [gdb_failed_notice]"
    and "res = Some Replaced \<longleftrightarrow> fork_os os = Child \<and> execlp_os os"
    and "res \<noteq> Some Fault"
  using assms
  by (auto simp: attach_gdb_def Let_def extends_def new_events_def gdb_failed_notice_def
                 frame_number_def frame_address_def capture_def is_readlink_def
           split: fork_result.splits if_splits prod.splits)

lemma backtrace_length: "int (length (backtrace os site kMaxFrames)) \<le> kMaxFrames"
  by (simp add: backtrace_def kMaxFrames_def)

lemma backtrace_length_sites:
  "length (backtrace os site n) = length (backtrace os site' n)"
  by (simp add: backtrace_def)

lemma unwind_and_print_facts:
  assumes "unwind_and_print os skip w = (oc, w')"
  shows "extends w w' \<and> oc \<noteq> Replaced \<and>
    frame_numbers (new_events w w') = count_from 0 (length (frame_numbers (new_events w w'))) \<and>
    captures (new_events w w') =
           (if skip < 0 \<or> kMaxFrames < skip then []
            else [(drop (nat skip) (backtrace os In_PrintStack kMaxFrames),
                   int (length (backtrace os In_PrintStack kMaxFrames)) - skip)]) \<and>
    (oc = Returned \<longrightarrow> 0 \<le> skip \<and> skip \<le> kMaxFrames
           \<and> frame_numbers (new_events w w') =
               count_from 0 (nat (int (length (backtrace os In_PrintStack kMaxFrames)) - skip))
           \<and> frame_addresses (new_events w w') = drop (nat skip) (backtrace os In_PrintStack kMaxFrames)) \<and>
    (\<forall>cached. executable w = Some cached \<longrightarrow>
           executable w' = Some cached \<and> executable_queries (new_events w w') = 0) \<and>
    executable_queries (new_events w w') \<le> 1 \<and>
    new_events w w' \<noteq> [] \<and> hd (new_events w w') = Backtrace kMaxFrames \<and>
    (executable w' = None \<longrightarrow> executable_queries (new_events w w') = 0)"
proof (cases "skip < 0 \<or> kMaxFrames < skip")
  case True
  with assms have "oc = Fault" "w' = emit (Backtrace kMaxFrames) w"
    by (simp_all add: unwind_and_print_def Let_def)
  with True show ?thesis by simp
next
  case False
  let ?frames = "backtrace os In_PrintStack kMaxFrames"
  let ?w1 = "emit (Backtrace kMaxFrames) w"
  let ?fs = "drop (nat skip) ?frames"
  let ?n = "int (length ?frames) - skip"
  from False assms have ps: "PrintStack_frames os ?fs ?n ?w1 = (oc, w')"
    by (simp add: unwind_and_print_def Let_def)
  note pf = PrintStack_frames_facts [OF ps]
  have ne: "new_events w w' = Backtrace kMaxFrames # new_events ?w1 w'"
    using new_events_append [OF extends_emit pf(1)] by simp
  have len: "take (nat ?n) ?fs = ?fs"
    by simp
  have ex: "extends w w'"
    using extends_trans [OF extends_emit pf(1)] .
  have ret: "0 \<le> skip \<and> skip \<le> kMaxFrames
           \<and> frame_numbers (new_events w w') = count_from 0 (nat ?n)
           \<and> frame_addresses (new_events w w') = ?fs" if "oc = Returned"
    using pf(6) [OF that] False ne len by auto
  have cache: "executable w' = Some cached \<and> executable_queries (new_events w w') = 0"
    if "executable w = Some cached" for cached
    using pf(7) [of cached] that ne by simp
  have uncached: "executable_queries (new_events w w') = 0" if "executable w' = None"
    using pf(9) [OF that] ne by simp
  from False ne pf(2) pf(3) pf(4) pf(8) len ex ret cache uncached
  show ?thesis by simp
qed

lemma PrintStack_skip_cases:
  obtains (builtin) w1 pre where
      "trace w1 = trace w @ pre" "executable w1 = executable w" "disposition w1 = disposition w"
      "frame_numbers pre = []" "frame_addresses pre = []" "captures pre = []"
      "executable_queries pre = 0" "Backtrace kMaxFrames \<notin> set pre"
      "PrintStack_skip b os skip w = unwind_and_print os skip w1"
      "\<not> (ROCKSDB_DLL b \<or> debug_flag (getenv_os os ''ROCKSDB_DEBUG''))
       \<or> fork_os os \<noteq> Child \<and> \<not> exited_success (waitpid_os os)"
      "ROCKSDB_DLL b \<or> debug_flag (getenv_os os ''ROCKSDB_DEBUG'')
       \<Longrightarrow> \<exists>pre'. pre = pre' @ [gdb_failed_notice]"
  | (gdb) w1 pre oc where
      "trace w1 = trace w @ pre" "executable w1 = executable w" "disposition w1 = disposition w"
      "frame_numbers pre = []" "frame_addresses pre = []" "captures pre = []"
      "executable_queries pre = 0" "Backtrace kMaxFrames \<notin> set pre"
      "PrintStack_skip b os skip w = (oc, w1)" "oc \<noteq> Fault"
      "ROCKSDB_DLL b \<or> debug_flag (getenv_os os ''ROCKSDB_DEBUG'')"
      "fork_os os = Child \<or> exited_success (waitpid_os os)"
      "oc = Replaced \<longleftrightarrow> fork_os os = Child \<and> execlp_os os"
proof (cases "ROCKSDB_DLL b \<or> debug_flag (getenv_os os ''ROCKSDB_DEBUG'')")
  case False
  let ?w1 = "emit (Getenv ''ROCKSDB_DEBUG'') w"
  from False have "PrintStack_skip b os skip w = unwind_and_print os skip ?w1"
    by (simp add: PrintStack_skip_def Let_def)
  with False show ?thesis
    by (intro builtin [of ?w1 "[Getenv ''ROCKSDB_DEBUG'']"])
       (simp_all add: frame_number_def frame_address_def capture_def is_readlink_def)
next
  case True
  let ?w1 = "emit (Getenv ''ROCKSDB_DEBUG'') w"
  obtain res w2 where ag: "attach_gdb b os (getenv_os os ''ROCKSDB_DEBUG'') ?w1 = (res, w2)"
    by (cases "attach_gdb b os (getenv_os os ''ROCKSDB_DEBUG'') ?w1")
  note af = attach_gdb_facts [OF ag]
  define pre where "pre = Getenv ''ROCKSDB_DEBUG'' # new_events ?w1 w2"
  have tr: "trace w2 = trace w @ pre"
    using trace_new_events [OF af(1)] by (simp add: pre_def)
  have dp: "disposition w2 = disposition w"
    using extends_disposition [OF af(1)] by simp
  have pr: "frame_numbers pre = []" "frame_addresses pre = []" "captures pre = []"
    "executable_queries pre = 0" "Backtrace kMaxFrames \<notin> set pre"
    using af(3-7)
    by (simp_all add: pre_def frame_number_def frame_address_def capture_def is_readlink_def)
  show ?thesis
  proof (cases res)
    case None
    with True ag have "PrintStack_skip b os skip w = unwind_and_print os skip w2"
      by (simp add: PrintStack_skip_def Let_def)
    moreover from af(9) None obtain pre' where "pre = (Getenv ''ROCKSDB_DEBUG'' # pre') @ [gdb_failed_notice]"
      by (auto simp: pre_def)
    ultimately show ?thesis
      using tr dp pr af(2) af(8) None
      by (intro builtin [of w2 pre]) auto
  next
    case (Some oc)
    with True ag have "PrintStack_skip b os skip w = (oc, w2)"
      by (simp add: PrintStack_skip_def Let_def)
    then show ?thesis
      using tr dp pr af(2) af(8) af(10) af(11) Some True
      by (intro gdb [of w2 pre oc]) auto
  qed
qed

lemma PrintStack_skip_extends: "extends w (snd (PrintStack_skip b os skip w))"
proof (cases rule: PrintStack_skip_cases [of w b os skip])
  case (builtin w1 pre)
  obtain oc w' where u: "unwind_and_print os skip w1 = (oc, w')"
    by (cases "unwind_and_print os skip w1")
  from unwind_and_print_facts [OF u] have "extends w1 w'" by simp
  moreover have "extends w w1" using builtin(1,3) by (rule extendsI)
  ultimately show ?thesis using builtin(9) u by (auto intro: extends_trans)
next
  case (gdb w1 pre oc)
  then show ?thesis by (auto intro: extendsI)
qed

lemmas run_simps =
  PrintStack_skip_def unwind_and_print_def PrintStack_frames_def print_frames_loop.simps
  PrintStackTraceLine_def static_executable_def GetExecutableName_def echo_lines.simps
  attach_gdb_def SaveStack_def PrintAndFreeStack_def SaveStack_then_PrintAndFreeStack_def
  StackTraceHandler_def signal_call_def received_signal_def gdb_failed_notice_def
  emit_def now_def new_events_def backtrace_def debug_flag_def exited_success_def
  kMaxFrames_def Let_def

lemma PrintStack_skip_builtin:
  assumes "\<not> (ROCKSDB_DLL b \<or> debug_flag (getenv_os os ''ROCKSDB_DEBUG''))
           \<or> fork_os os \<noteq> Child \<and> \<not> exited_success (waitpid_os os)"
  obtains w1 pre where
      "trace w1 = trace w @ pre" "executable w1 = executable w" "disposition w1 = disposition w"
      "frame_numbers pre = []" "frame_addresses pre = []" "captures pre = []"
      "executable_queries pre = 0" "Backtrace kMaxFrames \<notin> set pre"
      "PrintStack_skip b os skip w = unwind_and_print os skip w1"
      "ROCKSDB_DLL b \<or> debug_flag (getenv_os os ''ROCKSDB_DEBUG'')
       \<Longrightarrow> \<exists>pre'. pre = pre' @ [gdb_failed_notice]"
proof (cases rule: PrintStack_skip_cases [of w b os skip])
  case (builtin w1 pre)
  then show ?thesis by (intro that [of w1 pre])
next
  case (gdb w1 pre oc)
  with assms show ?thesis by auto
qed

lemma PrintStack_skip_facts:
  "frame_numbers (new_events w (snd (PrintStack_skip b os skip w))) =
     count_from 0 (length (frame_numbers (new_events w (snd (PrintStack_skip b os skip w))))) \<and>
   (\<forall>cached. executable w = Some cached \<longrightarrow>
     executable (snd (PrintStack_skip b os skip w)) = Some cached
     \<and> executable_queries (new_events w (snd (PrintStack_skip b os skip w))) = 0) \<and>
   executable_queries (new_events w (snd (PrintStack_skip b os skip w))) \<le> 1 \<and>
   (captures (new_events w (snd (PrintStack_skip b os skip w))) = []
    \<or> captures (new_events w (snd (PrintStack_skip b os skip w))) =
       [(drop (nat skip) (backtrace os In_PrintStack kMaxFrames), int (length (backtrace os In_PrintStack kMaxFrames)) - skip)]) \<and>
   (executable (snd (PrintStack_skip b os skip w)) = None \<longrightarrow>
      executable_queries (new_events w (snd (PrintStack_skip b os skip w))) = 0)"
proof (cases rule: PrintStack_skip_cases [of w b os skip])
  case (builtin w1 pre)
  obtain oc w' where u: "unwind_and_print os skip w1 = (oc, w')"
    by (cases "unwind_and_print os skip w1")
  note uf = unwind_and_print_facts [OF u]
  have "extends w1 w'" using uf by simp
  then have "trace w' = trace w @ pre @ new_events w1 w'"
    using builtin(1) by (simp add: trace_new_events)
  then have ne: "new_events w w' = pre @ new_events w1 w'"
    by (rule new_events_eqI)
  show ?thesis
    using builtin(2,4-7,9) u ne uf by (simp split: if_splits)
next
  case (gdb w1 pre oc)
  have ne: "new_events w w1 = pre"
    using gdb(1) by (rule new_events_eqI)
  show ?thesis
    using gdb(2,4-7,9) ne by simp
qed

lemma size_t_of_small:
  assumes "- 100 \<le> n" "n \<le> 100"
  shows "(8 * n) mod (SIZE_MAX + 1) = (if 0 \<le> n then 8 * n else 8 * n + (SIZE_MAX + 1))"
proof (cases "0 \<le> n")
  case True
  with assms have "0 \<le> 8 * n" "8 * n < SIZE_MAX + 1"
    by (simp_all add: SIZE_MAX_def)
  then have "(8 * n) mod (SIZE_MAX + 1) = 8 * n"
    by (rule mod_pos_pos_trivial)
  with True show ?thesis by simp
next
  case False
  with assms have "0 \<le> 8 * n + (SIZE_MAX + 1)" "8 * n + (SIZE_MAX + 1) < SIZE_MAX + 1"
    by (simp_all add: SIZE_MAX_def)
  then have "(8 * n + (SIZE_MAX + 1)) mod (SIZE_MAX + 1) = 8 * n + (SIZE_MAX + 1)"
    by (rule mod_pos_pos_trivial)
  moreover have "(8 * n + (SIZE_MAX + 1)) mod (SIZE_MAX + 1) = (8 * n) mod (SIZE_MAX + 1)"
    by simp
  ultimately show ?thesis using False by simp
qed

lemma SaveStack_unfold:
  "SaveStack os skip w =
     (let n = int (length (backtrace os In_SaveStack kMaxFrames)) - skip;
          bytes = (8 * n) mod (SIZE_MAX + 1);
          w2 = emit (Malloc bytes) (emit (Backtrace kMaxFrames) w)
      in (if bytes = 0 then Returned
          else if \<not> malloc_os os (Suc (now w)) bytes \<or> skip < 0 \<or> 8 * kMaxFrames < 8 * skip + bytes
          then Fault else Returned,
          n,
          if bytes = 0 then (if malloc_os os (Suc (now w)) bytes then Some [] else None)
          else if \<not> malloc_os os (Suc (now w)) bytes \<or> skip < 0 \<or> 8 * kMaxFrames < 8 * skip + bytes
          then None else Some (take (nat n) (drop (nat skip) (backtrace os In_SaveStack kMaxFrames))),
          w2))"
  by (simp add: SaveStack_def Let_def)

lemma SaveStack_facts:
  assumes "SaveStack os skip w = (oc, n, callstack, w')"
  shows "n = int (length (backtrace os In_SaveStack kMaxFrames)) - skip"
    and "trace w' = trace w @ [Backtrace kMaxFrames, Malloc ((8 * n) mod (SIZE_MAX + 1))]"
    and "executable w' = executable w" and "disposition w' = disposition w"
    and "oc \<noteq> Replaced"
    and "0 \<le> skip \<Longrightarrow> skip \<le> kMaxFrames \<Longrightarrow> oc = Returned \<Longrightarrow>
           skip \<le> int (length (backtrace os In_SaveStack kMaxFrames))
           \<and> (case callstack of None \<Rightarrow> [] | Some block \<Rightarrow> block) =
               drop (nat skip) (backtrace os In_SaveStack kMaxFrames)"
proof -
  let ?frames = "backtrace os In_SaveStack kMaxFrames"
  let ?n = "int (length ?frames) - skip"
  let ?bytes = "(8 * ?n) mod (SIZE_MAX + 1)"
  have len: "int (length ?frames) \<le> 100"
    using backtrace_length [of os] by (simp add: kMaxFrames_def)
  note u = assms [unfolded SaveStack_unfold Let_def]
  show n: "n = ?n" using u by simp
  show "trace w' = trace w @ [Backtrace kMaxFrames, Malloc ((8 * n) mod (SIZE_MAX + 1))]"
    using u by auto
  show "executable w' = executable w" "disposition w' = disposition w"
    using u by auto
  show "oc \<noteq> Replaced" using u by (auto split: if_splits)
  show "skip \<le> int (length ?frames)
         \<and> (case callstack of None \<Rightarrow> [] | Some block \<Rightarrow> block) = drop (nat skip) ?frames"
    if s: "0 \<le> skip" "skip \<le> kMaxFrames" and r: "oc = Returned"
  proof -
    from s len have range: "- 100 \<le> ?n" "?n \<le> 100"
      by (simp_all add: kMaxFrames_def)
    note b = size_t_of_small [OF range]
    show ?thesis
    proof (cases "0 \<le> ?n")
      case True
      then have bytes: "?bytes = 8 * ?n" using b by simp
      from u r have "(case callstack of None \<Rightarrow> [] | Some block \<Rightarrow> block) =
                       take (nat ?n) (drop (nat skip) ?frames)"
        unfolding bytes using True by (auto split: if_splits)
      with True show ?thesis by simp
    next
      case False
      then have bytes: "?bytes = 8 * ?n + (SIZE_MAX + 1)" using b by simp
      have "?bytes \<noteq> 0" "8 * kMaxFrames < 8 * skip + ?bytes"
        unfolding bytes using range s by (simp_all add: SIZE_MAX_def kMaxFrames_def)
      with u r show ?thesis by (auto split: if_splits)
    qed
  qed
qed

lemma PrintAndFreeStack_facts:
  assumes "PrintAndFreeStack os callstack n w = (oc, w')"
  shows "extends w w'" and "oc \<noteq> Replaced"
    and "frame_numbers (new_events w w') = count_from 0 (length (frame_numbers (new_events w w')))"
    and "oc = Returned \<Longrightarrow>
           frame_numbers (new_events w w') = count_from 0 (nat n)
           \<and> frame_addresses (new_events w w') =
               take (nat n) (case callstack of None \<Rightarrow> [] | Some block \<Rightarrow> block)"
    and "executable w = Some cached \<Longrightarrow>
           executable w' = Some cached \<and> executable_queries (new_events w w') = 0"
    and "executable_queries (new_events w w') \<le> 1"
    and "executable w' = None \<Longrightarrow> executable_queries (new_events w w') = 0"
proof -
  let ?fs = "case callstack of None \<Rightarrow> [] | Some block \<Rightarrow> block"
  obtain oc1 w1 where ps: "PrintStack_frames os ?fs n w = (oc1, w1)"
    by (cases "PrintStack_frames os ?fs n w")
  note pf = PrintStack_frames_facts [OF ps]
  from assms ps have r: "oc = oc1" "w' = (if oc1 = Returned then emit Free_callstack w1 else w1)"
    by (auto simp: PrintAndFreeStack_def split: outcome.splits)
  have ne: "new_events w w' = new_events w w1 @ (if oc1 = Returned then [Free_callstack] else [])"
    using r(2) pf(1) by (simp add: new_events_emit_right)
  show "extends w w'" using r(2) pf(1) by (simp add: extends_emit_right)
  show "oc \<noteq> Replaced" using r(1) pf(2) by simp
  show "frame_numbers (new_events w w') = count_from 0 (length (frame_numbers (new_events w w')))"
    using ne pf(4) by simp
  show "frame_numbers (new_events w w') = count_from 0 (nat n)
           \<and> frame_addresses (new_events w w') = take (nat n) ?fs" if "oc = Returned"
    using that r(1) ne pf(6) by simp
  show "executable w' = Some cached \<and> executable_queries (new_events w w') = 0"
    if "executable w = Some cached"
    using pf(7) [OF that] r(2) ne by simp
  show "executable_queries (new_events w w') \<le> 1"
    using ne pf(8) by simp
  show "executable_queries (new_events w w') = 0" if "executable w' = None"
    using that pf(9) r(2) ne by (auto split: if_splits)
qed

lemma SaveStack_then_PrintAndFreeStack_facts:
  "frame_numbers (new_events w (snd (SaveStack_then_PrintAndFreeStack os skip w))) =
     count_from 0 (length (frame_numbers (new_events w (snd (SaveStack_then_PrintAndFreeStack os skip w))))) \<and>
   (\<forall>cached. executable w = Some cached \<longrightarrow>
     executable (snd (SaveStack_then_PrintAndFreeStack os skip w)) = Some cached
     \<and> executable_queries (new_events w (snd (SaveStack_then_PrintAndFreeStack os skip w))) = 0) \<and>
   executable_queries (new_events w (snd (SaveStack_then_PrintAndFreeStack os skip w))) \<le> 1 \<and>
   (0 \<le> skip \<and> skip \<le> kMaxFrames \<and> fst (SaveStack_then_PrintAndFreeStack os skip w) = Returned \<longrightarrow>
      skip \<le> int (length (backtrace os In_SaveStack kMaxFrames))
      \<and> frame_numbers (new_events w (snd (SaveStack_then_PrintAndFreeStack os skip w))) =
          count_from 0 (nat (int (length (backtrace os In_SaveStack kMaxFrames)) - skip))
      \<and> frame_addresses (new_events w (snd (SaveStack_then_PrintAndFreeStack os skip w))) =
          drop (nat skip) (backtrace os In_SaveStack kMaxFrames))"
proof -
  obtain oc n callstack w1 where ss: "SaveStack os skip w = (oc, n, callstack, w1)"
    by (cases "SaveStack os skip w")
  note sf = SaveStack_facts [OF ss]
  let ?pre = "[Backtrace kMaxFrames, Malloc ((8 * n) mod (SIZE_MAX + 1))]"
  show ?thesis
  proof (cases "oc = Returned")
    case False
    with ss have "SaveStack_then_PrintAndFreeStack os skip w = (oc, w1)"
      by (cases oc) (simp_all add: SaveStack_then_PrintAndFreeStack_def)
    moreover have "new_events w w1 = ?pre"
      using sf(2) by (rule new_events_eqI)
    ultimately show ?thesis using False sf(3) by simp
  next
    case True
    obtain oc2 w2 where pa: "PrintAndFreeStack os callstack n w1 = (oc2, w2)"
      by (cases "PrintAndFreeStack os callstack n w1")
    note pf = PrintAndFreeStack_facts [OF pa]
    from True ss pa have eq: "SaveStack_then_PrintAndFreeStack os skip w = (oc2, w2)"
      by (simp add: SaveStack_then_PrintAndFreeStack_def)
    have "trace w2 = trace w @ ?pre @ new_events w1 w2"
      using trace_new_events [OF pf(1)] sf(2) by simp
    then have ne: "new_events w w2 = ?pre @ new_events w1 w2"
      by (rule new_events_eqI)
    have cache: "executable w2 = Some cached \<and> executable_queries (new_events w w2) = 0"
      if "executable w = Some cached" for cached
      using pf(5) [of cached] that sf(3) ne by simp
    have ret: "skip \<le> int (length (backtrace os In_SaveStack kMaxFrames))
      \<and> frame_numbers (new_events w w2) =
          count_from 0 (nat (int (length (backtrace os In_SaveStack kMaxFrames)) - skip))
      \<and> frame_addresses (new_events w w2) = drop (nat skip) (backtrace os In_SaveStack kMaxFrames)"
      if "0 \<le> skip" "skip \<le> kMaxFrames" "oc2 = Returned"
      using sf(6) [OF that(1,2) True] pf(4) [OF that(3)] sf(1) ne by simp
    show ?thesis
      using eq ne pf(3) pf(6) cache ret by simp
  qed
qed

lemma PrintStackTraceLine_cached:
  assumes "executable w = Some cached"
  shows "PrintStackTraceLine (os\<lparr>readlink_os := answers\<rparr>) symbol frame w =
         PrintStackTraceLine os symbol frame w"
  using assms by (cases cached) (simp_all add: PrintStackTraceLine_def static_executable_def Let_def)

lemma gdb_failed_falls_back:
  assumes "ROCKSDB_DLL b \<or> debug_flag (getenv_os os ''ROCKSDB_DEBUG'')"
    and "fork_os os \<noteq> Child" and "\<not> exited_success (waitpid_os os)"
  shows "\<exists>pre w1.
           trace w1 = trace w @ pre @ [gdb_failed_notice]
           \<and> executable w1 = executable w
           \<and> frame_numbers pre = [] \<and> frame_addresses pre = []
           \<and> Backtrace kMaxFrames \<notin> set pre
           \<and> PrintStack_skip b os skip w = unwind_and_print os skip w1
           \<and> new_events w (snd (PrintStack_skip b os skip w)) =
               pre @ gdb_failed_notice # new_events w1 (snd (unwind_and_print os skip w1))
           \<and> hd (new_events w1 (snd (unwind_and_print os skip w1))) = Backtrace kMaxFrames
           \<and> (fst (PrintStack_skip b os skip w) = Returned \<longrightarrow>
                frame_numbers (new_events w (snd (PrintStack_skip b os skip w))) =
                  map int [0..<nat (int (length (backtrace os In_PrintStack kMaxFrames)) - skip)]
                \<and> frame_addresses (new_events w (snd (PrintStack_skip b os skip w))) =
                  drop (nat skip) (backtrace os In_PrintStack kMaxFrames))"
proof -
  from assms(2,3)
  have reach: "\<not> (ROCKSDB_DLL b \<or> debug_flag (getenv_os os ''ROCKSDB_DEBUG''))
           \<or> fork_os os \<noteq> Child \<and> \<not> exited_success (waitpid_os os)"
    by simp
  obtain w1 pre0 where bi:
      "trace w1 = trace w @ pre0" "executable w1 = executable w"
      "frame_numbers pre0 = []" "frame_addresses pre0 = []"
      "Backtrace kMaxFrames \<notin> set pre0"
      "PrintStack_skip b os skip w = unwind_and_print os skip w1"
      "\<exists>pre'. pre0 = pre' @ [gdb_failed_notice]"
    using PrintStack_skip_builtin [OF reach, of w skip] assms(1) by metis
  then obtain pre where pre: "pre0 = pre @ [gdb_failed_notice]" by blast
  obtain oc w' where u: "unwind_and_print os skip w1 = (oc, w')"
    by (cases "unwind_and_print os skip w1")
  note uf = unwind_and_print_facts [OF u]
  have ext: "extends w1 w'" using uf by simp
  have "trace w' = trace w @ pre0 @ new_events w1 w'"
    using trace_new_events [OF ext] bi(1) by simp
  then have ne: "new_events w w' = pre0 @ new_events w1 w'"
    by (rule new_events_eqI)
  have fp: "frame_numbers pre = []" "frame_addresses pre = []" "Backtrace kMaxFrames \<notin> set pre"
    using bi(3,4,5) pre by simp_all
  have ret: "frame_numbers (new_events w w') =
                  map int [0..<nat (int (length (backtrace os In_PrintStack kMaxFrames)) - skip)]
                \<and> frame_addresses (new_events w w') = drop (nat skip) (backtrace os In_PrintStack kMaxFrames)"
    if "oc = Returned"
    using uf that ne bi(3,4) by (simp add: count_from_0_eq)
  show ?thesis
    using bi(1,2,6) pre fp u ne uf ret
    by (intro exI [of _ pre] exI [of _ w1]) simp
qed

lemma read_line_set: "set (read_line k f) \<subseteq> set f"
  by (induction k f rule: read_line.induct) auto

lemma read_line_bound: "length (read_line k f) \<le> k"
  by (induction k f rule: read_line.induct) auto

lemma strlen_terminated: "NUL \<notin> set chunk \<Longrightarrow> strlen (chunk @ [NUL]) = int (length chunk)"
  by (induction chunk) (auto simp: strlen_def)

lemma fgets_text:
  assumes "fgets kLineMax f = Some (line, f')" and "NUL \<notin> set f"
  shows "0 \<le> size_t_sub (strlen line) 1" and "size_t_sub (strlen line) 1 < kLineMax - 1"
    and "NUL \<notin> set f'"
proof -
  let ?chunk = "read_line 255 f"
  from assms(1) have f: "f \<noteq> []" and line: "line = ?chunk @ [NUL]"
    and f': "f' = drop (length ?chunk) f"
    by (auto simp: fgets_def kLineMax_def Let_def split: if_splits)
  have ne: "?chunk \<noteq> []" using read_line_nonempty [of 255 f] f by simp
  have le: "length ?chunk \<le> 255" by (rule read_line_bound)
  have nn: "NUL \<notin> set ?chunk" using read_line_set [of 255 f] assms(2) by auto
  have len: "strlen line = int (length ?chunk)"
    using strlen_terminated [OF nn] line by simp
  have pos: "1 \<le> int (length ?chunk)" using ne by (cases ?chunk) simp_all
  have "0 \<le> int (length ?chunk) - 1"
    using pos by linarith
  moreover have "int (length ?chunk) - 1 < SIZE_MAX + 1"
    using le by (simp add: SIZE_MAX_def)
  ultimately have "(int (length ?chunk) - 1) mod (SIZE_MAX + 1) = int (length ?chunk) - 1"
    by (rule mod_pos_pos_trivial)
  then have "size_t_sub (strlen line) 1 = int (length ?chunk) - 1"
    by (simp add: len size_t_sub_def)
  then show "0 \<le> size_t_sub (strlen line) 1" "size_t_sub (strlen line) 1 < kLineMax - 1"
    using pos le unfolding kLineMax_def by linarith+
  show "NUL \<notin> set f'"
    using assms(2) f' by (auto dest: in_set_dropD)
qed

lemma echo_lines_text_returns: "NUL \<notin> set f \<Longrightarrow> fst (echo_lines f w) = Returned"
proof (induction f w rule: echo_lines.induct)
  case (1 f w)
  show ?case
  proof (cases "fgets kLineMax f")
    case None
    then show ?thesis by (simp add: echo_lines.simps [of f w])
  next
    case (Some p)
    obtain line f' where p: "p = (line, f')" by (cases p)
    note ft = fgets_text [OF Some [unfolded p] "1.prems"]
    have nf: "\<not> kLineMax \<le> size_t_sub (strlen line) 1"
      using ft(2) by simp
    from "1.IH" [OF Some p [symmetric] refl nf ft(3)] Some p nf
    show ?thesis by (simp add: echo_lines.simps [of f w])
  qed
qed

lemma echo_not_raw: "list_all is_echo evs \<Longrightarrow> Fprintf '' %p'' [APtr frame] \<notin> set evs"
  by (induction evs) (auto simp: is_echo_def)

lemma PrintStack_skip_disposition:
  "disposition (snd (PrintStack_skip b os skip w)) = disposition w"
  using PrintStack_skip_extends [of w b os skip] by (rule extends_disposition)

lemma exec_failed_child_returns:
  assumes "ROCKSDB_DLL b \<or> debug_flag (getenv_os os ''ROCKSDB_DEBUG'')"
    and "fork_os os = Child" and "\<not> execlp_os os"
  shows "fst (PrintStack_skip b os skip w) = Returned
         \<and> Backtrace kMaxFrames \<notin> set (new_events w (snd (PrintStack_skip b os skip w)))
         \<and> frame_numbers (new_events w (snd (PrintStack_skip b os skip w))) = []
         \<and> frame_addresses (new_events w (snd (PrintStack_skip b os skip w))) = []"
proof (cases rule: PrintStack_skip_cases [of w b os skip])
  case (builtin w1 pre)
  with assms show ?thesis by simp
next
  case (gdb w1 pre oc)
  have "new_events w w1 = pre" using gdb(1) by (rule new_events_eqI)
  moreover have "oc = Returned" using gdb(10,13) assms by (cases oc) auto
  ultimately show ?thesis using gdb by simp
qed

lemma resolved_at_most_once_step:
  assumes "extends w w'" and "resolved_at_most_once w"
    and "executable_queries (new_events w w') \<le> 1"
    and "\<And>cached. executable w = Some cached \<Longrightarrow>
           executable w' = Some cached \<and> executable_queries (new_events w w') = 0"
    and "executable w' = None \<Longrightarrow> executable_queries (new_events w w') = 0"
  shows "resolved_at_most_once w'"
proof -
  have q: "executable_queries (trace w') =
             executable_queries (trace w) + executable_queries (new_events w w')"
    using trace_new_events [OF assms(1)] by simp
  show ?thesis
  proof (cases "executable w")
    case None
    with assms(2,3,5) q show ?thesis by (auto simp: resolved_at_most_once_def)
  next
    case (Some cached)
    with assms(2) assms(4) [OF Some] q show ?thesis by (simp add: resolved_at_most_once_def)
  qed
qed

lemma backtrace_drop_caller:
  assumes "2 \<le> N"
  shows "drop (nat N) (backtrace os site kMaxFrames) = drop (nat (N - 2)) (take 98 (call_stack os))"
proof -
  from assms have "nat N = Suc (Suc (nat (N - 2)))" by simp
  then show ?thesis
    by (simp add: backtrace_def kMaxFrames_def)
qed

lemma signal_call_facts:
  "trace (signal_call os sig h w) = trace w @ [Signal sig h]"
  "executable (signal_call os sig h w) = executable w"
  "disposition (signal_call os sig h w) =
     (if signal_os os sig then (disposition w)(sig := h) else disposition w)"
  by (simp_all add: signal_call_def Let_def)

lemma fgets_leading_NUL:
  "fgets kLineMax (NUL # f) =
     Some (NUL # read_line 254 f @ [NUL], drop (length (read_line 254 f)) f)"
  by (simp add: fgets_def kLineMax_def Let_def eval_nat_numeral)

lemma echo_lines_leading_NUL: "echo_lines (NUL # f) w = (Fault, w)"
proof -
  have "size_t_sub (strlen (NUL # read_line 254 f @ [NUL])) 1 = SIZE_MAX"
    by (simp add: strlen_def size_t_sub_def SIZE_MAX_def)
  moreover have "kLineMax \<le> SIZE_MAX"
    by (simp add: kLineMax_def SIZE_MAX_def)
  ultimately show ?thesis
    by (simp add: echo_lines.simps [of "NUL # f" w] fgets_leading_NUL)
qed

section \<open>The claims\<close>

text \<open>
  C1. What \<^verbatim>\<open>StackTraceHandler\<close> adds to the trace, for every signal: first the call
  \<^verbatim>\<open>signal(sig, SIG_DFL)\<close>, before any output; then the line with the signal's number and
  description; then all that \<^verbatim>\<open>PrintStack(3)\<close> does from there; and, when \<^verbatim>\<open>PrintStack\<close>
  returns, the note for the thread sanitizer (in such a build) and last \<^verbatim>\<open>raise(sig)\<close> of
  the same signal. The handler ends as \<^verbatim>\<open>PrintStack\<close> ends. From the reset on (when it
  succeeds) the disposition of the signal is the default, while \<^verbatim>\<open>PrintStack\<close> runs and
  after the handler.
\<close>

theorem StackTraceHandler_order:
  "new_events w (snd (StackTraceHandler b os sig w)) =
     Signal sig SIG_DFL # received_signal os sig #
     new_events (emit (received_signal os sig) (signal_call os sig SIG_DFL w))
       (snd (PrintStack_skip b os 3 (emit (received_signal os sig) (signal_call os sig SIG_DFL w)))) @
     (if fst (PrintStack_skip b os 3 (emit (received_signal os sig) (signal_call os sig SIG_DFL w)))
           = Returned
      then (if SANITIZE_THREAD b then [Fprintf tsan_note []] else []) @ [Raise sig]
      else [])
   \<and> fst (StackTraceHandler b os sig w) =
       fst (PrintStack_skip b os 3 (emit (received_signal os sig) (signal_call os sig SIG_DFL w)))
   \<and> disposition (emit (received_signal os sig) (signal_call os sig SIG_DFL w)) =
       (if signal_os os sig then (disposition w)(sig := SIG_DFL) else disposition w)
   \<and> disposition (snd (StackTraceHandler b os sig w)) =
       (if signal_os os sig then (disposition w)(sig := SIG_DFL) else disposition w)"
proof -
  let ?w1 = "signal_call os sig SIG_DFL w"
  let ?w2 = "emit (received_signal os sig) ?w1"
  obtain oc w3 where ps: "PrintStack_skip b os 3 ?w2 = (oc, w3)"
    by (cases "PrintStack_skip b os 3 ?w2")
  have ext: "extends ?w2 w3"
    using PrintStack_skip_extends [of ?w2 b os 3] ps by simp
  have d2: "disposition ?w2 =
              (if signal_os os sig then (disposition w)(sig := SIG_DFL) else disposition w)"
    by (simp add: signal_call_facts)
  have d3: "disposition w3 = disposition ?w2"
    using ext by (rule extends_disposition)
  define evs where "evs = new_events ?w2 w3"
  define tail where
    "tail = (if oc = Returned
             then (if SANITIZE_THREAD b then [Fprintf tsan_note []] else []) @ [Raise sig] else [])"
  have t2: "trace ?w2 = trace w @ [Signal sig SIG_DFL, received_signal os sig]"
    by (simp add: signal_call_facts)
  have t3: "trace w3 = trace w @ Signal sig SIG_DFL # received_signal os sig # evs"
    using trace_new_events [OF ext] t2 by (simp add: evs_def)
  have "StackTraceHandler b os sig w =
          (case oc of
             Returned \<Rightarrow> (Returned, emit (Raise sig)
               (if SANITIZE_THREAD b then emit (Fprintf tsan_note []) w3 else w3))
           | _ \<Rightarrow> (oc, w3))"
    using ps by (simp add: StackTraceHandler_def Let_def split: outcome.splits)
  then have "fst (StackTraceHandler b os sig w) = oc"
    and "trace (snd (StackTraceHandler b os sig w)) =
           trace w @ (Signal sig SIG_DFL # received_signal os sig # evs @ tail)"
    and "disposition (snd (StackTraceHandler b os sig w)) = disposition w3"
    using t3 by (cases oc; simp add: tail_def)+
  then have "fst (StackTraceHandler b os sig w) = oc"
    and "new_events w (snd (StackTraceHandler b os sig w)) =
           Signal sig SIG_DFL # received_signal os sig # evs @ tail"
    and "disposition (snd (StackTraceHandler b os sig w)) = disposition w3"
    by (simp_all add: new_events_eqI)
  then show ?thesis
    using ps d2 d3 by (simp add: evs_def tail_def)
qed

theorem StackTraceHandler_order_witness:
  "disposition (InstallStackTraceHandler linux_build plain_os boot) 6 = StackTraceHandler_fn
   \<and> new_events (InstallStackTraceHandler linux_build plain_os boot)
         (snd (StackTraceHandler linux_build plain_os 6
                 (InstallStackTraceHandler linux_build plain_os boot))) =
     [Signal 6 SIG_DFL, Fprintf (''Received signal %d (%s)'' @ [NL]) [AInt 6, AStr ''Aborted''],
      Getenv ''ROCKSDB_DEBUG'', Backtrace 100, BacktraceSymbols [0x401560, 0x4017a4] 2,
      Fprintf ''#%-2d  '' [AInt 0], Getpid, Readlink ''/proc/%d/exe'' [AInt 100],
      Fprintf '' %p'' [APtr 0x401560], Fprintf [NL] [],
      Fprintf ''#%-2d  '' [AInt 1], Fprintf '' %p'' [APtr 0x4017a4], Fprintf [NL] [],
      Free_symbols, Raise 6]
   \<and> fst (StackTraceHandler linux_build plain_os 6
            (InstallStackTraceHandler linux_build plain_os boot)) = Returned
   \<and> disposition (snd (StackTraceHandler linux_build plain_os 6
                          (InstallStackTraceHandler linux_build plain_os boot))) 6 = SIG_DFL"
  using StackTraceHandler_order
          [of "InstallStackTraceHandler linux_build plain_os boot" linux_build plain_os 6]
  by (simp add: run_simps InstallStackTraceHandler_def SIGILL_def SIGSEGV_def SIGBUS_def
        SIGABRT_def plain_os_def boot_def linux_build_def)

text \<open>
  C2, as the specification has it: for every skip from 0 to the maximum depth, the frame
  count of a capture is never negative. It is negative when the skip exceeds the depth of
  the stack: with five frames on the stack and a skip of 7, \<^verbatim>\<open>SaveStack\<close> stores the count
  -2, and \<^verbatim>\<open>PrintStack\<close> hands the count -2 to \<^verbatim>\<open>backtrace_symbols\<close>.
\<close>

theorem capture_count_negative:
  "(0::int) \<le> 7 \<and> 7 \<le> kMaxFrames
   \<and> fst (snd (SaveStack plain_os 7 boot)) = - 2
   \<and> captures (new_events boot (snd (PrintStack_skip linux_build plain_os 7 boot))) = [([], - 2)]"
  by (simp add: run_simps plain_os_def boot_def linux_build_def capture_def)

text \<open>
  C2, amended: for a skip from 0 to the number of frames that \<^verbatim>\<open>backtrace\<close> has captured,
  the count that \<^verbatim>\<open>SaveStack\<close> stores, and every count that \<^verbatim>\<open>PrintStack\<close> hands on with
  its frames, is the captured number minus the skip; it lies between 0 and the maximum
  depth 100 minus the skip, and so never exceeds 100.
\<close>

theorem capture_count_bounds:
  assumes "0 \<le> skip" and "skip \<le> int (length (backtrace os In_SaveStack kMaxFrames))"
  shows "fst (snd (SaveStack os skip w)) = int (length (backtrace os In_SaveStack kMaxFrames)) - skip
       \<and> 0 \<le> fst (snd (SaveStack os skip w))
       \<and> fst (snd (SaveStack os skip w)) \<le> kMaxFrames - skip
       \<and> fst (snd (SaveStack os skip w)) \<le> kMaxFrames
       \<and> length (backtrace os In_PrintStack kMaxFrames) = length (backtrace os In_SaveStack kMaxFrames)
       \<and> (\<forall>(fs, n) \<in> set (captures (new_events w (snd (PrintStack_skip b os skip w)))).
             n = int (length (backtrace os In_PrintStack kMaxFrames)) - skip \<and> int (length fs) = n
             \<and> 0 \<le> n \<and> n \<le> kMaxFrames - skip \<and> n \<le> kMaxFrames)"
proof -
  obtain oc n callstack w' where ss: "SaveStack os skip w = (oc, n, callstack, w')"
    by (cases "SaveStack os skip w")
  have n: "n = int (length (backtrace os In_SaveStack kMaxFrames)) - skip"
    using SaveStack_facts(1) [OF ss] .
  have len: "int (length (backtrace os In_SaveStack kMaxFrames)) \<le> kMaxFrames"
    by (rule backtrace_length)
  have same: "length (backtrace os In_PrintStack kMaxFrames) =
              length (backtrace os In_SaveStack kMaxFrames)"
    by (rule backtrace_length_sites)
  have cap: "captures (new_events w (snd (PrintStack_skip b os skip w))) = []
    \<or> captures (new_events w (snd (PrintStack_skip b os skip w))) =
       [(drop (nat skip) (backtrace os In_PrintStack kMaxFrames),
         int (length (backtrace os In_PrintStack kMaxFrames)) - skip)]"
    using PrintStack_skip_facts [of w b os skip] by simp
  show ?thesis
    using ss n len same assms cap by auto
qed

theorem capture_count_bounds_witness:
  "(0::int) \<le> 3 \<and> 3 \<le> int (length (backtrace plain_os In_SaveStack kMaxFrames))
   \<and> fst (snd (SaveStack plain_os 3 boot)) = 2
   \<and> captures (new_events boot (snd (PrintStack_skip linux_build plain_os 3 boot))) =
       [([0x401560, 0x4017a4], 2)]"
proof -
  have h: "(0::int) \<le> 3" "3 \<le> int (length (backtrace plain_os In_SaveStack kMaxFrames))"
    by (simp_all add: backtrace_def plain_os_def kMaxFrames_def)
  have c: "captures (new_events boot (snd (PrintStack_skip linux_build plain_os 3 boot))) =
       [([0x401560, 0x4017a4], 2)]"
    by (simp add: run_simps plain_os_def boot_def linux_build_def capture_def)
  show ?thesis
    using h c capture_count_bounds [OF h, where w = boot and b = linux_build]
    by (simp add: backtrace_def plain_os_def kMaxFrames_def)
qed

text \<open>
  C3, as the specification has it: a frame's raw address is printed whenever the path of
  the executable is unknown or the tool is unavailable or cannot be started. With the path
  known, it is not: when \<^verbatim>\<open>popen\<close> gives no stream, the line for the frame is a newline
  alone; when the shell finds no \<^verbatim>\<open>addr2line\<close>, the line is the shell's complaint. In
  neither case is there a \<^verbatim>\<open>%p\<close> of the frame.
\<close>

theorem raw_address_not_printed:
  "new_events boot (snd (PrintStackTraceLine no_tool_os None 0x401136 boot)) =
     [Getpid, Readlink ''/proc/%d/exe'' [AInt 100],
      Popen ''addr2line %p -e %s -f -C 2>&1'' [APtr 0x401136, AStr ''/usr/bin/db_bench''],
      Fprintf [NL] []]
   \<and> new_events boot (snd (PrintStackTraceLine not_found_os None 0x401136 boot)) =
     [Getpid, Readlink ''/proc/%d/exe'' [AInt 100],
      Popen ''addr2line %p -e %s -f -C 2>&1'' [APtr 0x401136, AStr ''/usr/bin/db_bench''],
      Fprintf (''%s'' @ [TAB]) [AStr ''sh: 1: addr2line: not found''], Pclose,
      Fprintf [NL] []]"
  by (simp add: run_simps no_tool_os_def not_found_os_def plain_os_def boot_def
        fgets_def kLineMax_def strlen_def c_str_def size_t_sub_def SIZE_MAX_def eval_nat_numeral)

text \<open>
  C3, amended: when no path of the executable is known, \<^verbatim>\<open>PrintStackTraceLine\<close> returns,
  and what it does is: the one query for the path if this is the first call, the symbol
  if there is one, the raw address of the frame, the newline. When the path is known, the
  raw address is never printed, whatever becomes of the tool; and when \<^verbatim>\<open>popen\<close> gives no
  stream, \<^verbatim>\<open>PrintStackTraceLine\<close> returns, and what it prints is the symbol if there is
  one and the newline, with the attempt to start the tool between them.
\<close>

theorem PrintStackTraceLine_fallback:
  "(fst (static_executable os w) = None \<longrightarrow>
      fst (PrintStackTraceLine os symbol frame w) = Returned
      \<and> new_events w (snd (PrintStackTraceLine os symbol frame w)) =
          (if executable w = None
           then [Getpid, Readlink ''/proc/%d/exe'' [AInt (getpid_os os)]] else []) @
          (case symbol of None \<Rightarrow> [] | Some s \<Rightarrow> [Fprintf ''%s '' [AStr s]]) @
          [Fprintf '' %p'' [APtr frame], Fprintf [NL] []])
   \<and> (\<forall>path. fst (static_executable os w) = Some path \<longrightarrow>
        Fprintf '' %p'' [APtr frame] \<notin>
          set (new_events w (snd (PrintStackTraceLine os symbol frame w)))
        \<and> ((\<forall>t. popen_os os t frame path = None) \<longrightarrow>
             fst (PrintStackTraceLine os symbol frame w) = Returned
             \<and> new_events w (snd (PrintStackTraceLine os symbol frame w)) =
                 (if executable w = None
                  then [Getpid, Readlink ''/proc/%d/exe'' [AInt (getpid_os os)]] else []) @
                 (case symbol of None \<Rightarrow> [] | Some s \<Rightarrow> [Fprintf ''%s '' [AStr s]]) @
                 [Popen ''addr2line %p -e %s -f -C 2>&1'' [APtr frame, AStr path],
                  Fprintf [NL] []]))"
proof -
  obtain exe w1 where se: "static_executable os w = (exe, w1)"
    by (cases "static_executable os w")
  note sf = static_executable_facts [OF se]
  define init where
    "init = (if executable w = None
             then [Getpid, Readlink ''/proc/%d/exe'' [AInt (getpid_os os)]] else [])"
  have "new_events w w1 = init"
    using sf(3,4) by (cases "executable w") (auto simp: init_def)
  then have t1: "trace w1 = trace w @ init"
    using sf(1) by (simp add: trace_new_events)
  have init: "Fprintf '' %p'' [APtr frame] \<notin> set init"
    by (simp add: init_def)
  define sym where "sym = (case symbol of None \<Rightarrow> [] | Some s \<Rightarrow> [Fprintf ''%s '' [AStr s]])"
  define w2 where "w2 = (case symbol of Some s \<Rightarrow> emit (Fprintf ''%s '' [AStr s]) w1 | None \<Rightarrow> w1)"
  have t2: "trace w2 = trace w @ init @ sym"
    using t1 by (auto simp: w2_def sym_def split: option.splits)
  have sym: "Fprintf '' %p'' [APtr frame] \<notin> set sym"
    by (auto simp: sym_def split: option.splits)
  have none: "fst (PrintStackTraceLine os symbol frame w) = Returned
      \<and> new_events w (snd (PrintStackTraceLine os symbol frame w)) =
           init @ sym @ [Fprintf '' %p'' [APtr frame], Fprintf [NL] []]" if "exe = None"
  proof -
    from that se have "PrintStackTraceLine os symbol frame w =
        (Returned, emit (Fprintf [NL] []) (emit (Fprintf '' %p'' [APtr frame]) w2))"
      by (simp add: PrintStackTraceLine_def w2_def Let_def)
    then show ?thesis using t2 by (simp add: new_events_eqI)
  qed
  have no_stream: "fst (PrintStackTraceLine os symbol frame w) = Returned
      \<and> new_events w (snd (PrintStackTraceLine os symbol frame w)) =
           init @ sym @ [Popen ''addr2line %p -e %s -f -C 2>&1'' [APtr frame, AStr path],
                         Fprintf [NL] []]"
    if "exe = Some path" "\<forall>t. popen_os os t frame path = None" for path
  proof -
    from that se have "PrintStackTraceLine os symbol frame w =
        (Returned, emit (Fprintf [NL] [])
           (emit (Popen ''addr2line %p -e %s -f -C 2>&1'' [APtr frame, AStr path]) w2))"
      by (simp add: PrintStackTraceLine_def w2_def Let_def)
    then show ?thesis using t2 by (simp add: new_events_eqI)
  qed
  have known: "Fprintf '' %p'' [APtr frame] \<notin>
          set (new_events w (snd (PrintStackTraceLine os symbol frame w)))"
    if p: "exe = Some path" for path
  proof (cases "popen_os os (now w2) frame path")
    case None
    with p se have "PrintStackTraceLine os symbol frame w =
        (Returned, emit (Fprintf [NL] [])
           (emit (Popen ''addr2line %p -e %s -f -C 2>&1'' [APtr frame, AStr path]) w2))"
      by (simp add: PrintStackTraceLine_def w2_def Let_def)
    then have "new_events w (snd (PrintStackTraceLine os symbol frame w)) =
           (init @ sym) @ [Popen ''addr2line %p -e %s -f -C 2>&1'' [APtr frame, AStr path],
                           Fprintf [NL] []]"
      using t2 by (simp add: new_events_eqI)
    then show ?thesis using init sym by simp
  next
    case (Some out)
    let ?w3 = "emit (Popen ''addr2line %p -e %s -f -C 2>&1'' [APtr frame, AStr path]) w2"
    obtain oc4 w4 where el: "echo_lines out ?w3 = (oc4, w4)"
      by (cases "echo_lines out ?w3")
    define echo where "echo = new_events ?w3 w4"
    from echo_lines_extends [of ?w3 out] el
    have ex: "extends ?w3 w4" "list_all is_echo echo"
      by (simp_all add: echo_def)
    have t4: "trace w4 = trace w @ (init @ sym) @
                Popen ''addr2line %p -e %s -f -C 2>&1'' [APtr frame, AStr path] # echo"
      using trace_new_events [OF ex(1)] t2 by (simp add: echo_def)
    from p se Some el
    have "snd (PrintStackTraceLine os symbol frame w) =
            (if oc4 = Returned then emit (Fprintf [NL] []) (emit Pclose w4) else w4)"
      by (cases oc4) (simp_all add: PrintStackTraceLine_def w2_def Let_def)
    then have "new_events w (snd (PrintStackTraceLine os symbol frame w)) =
           (init @ sym) @ Popen ''addr2line %p -e %s -f -C 2>&1'' [APtr frame, AStr path] # echo
             @ (if oc4 = Returned then [Pclose, Fprintf [NL] []] else [])"
      using t4 by (auto intro: new_events_eqI)
    then show ?thesis using init sym echo_not_raw [OF ex(2), of frame] by simp
  qed
  show ?thesis
    using se none no_stream known unfolding init_def sym_def by simp
qed

theorem PrintStackTraceLine_fallback_witness:
  "fst (static_executable plain_os boot) = None
   \<and> fst (PrintStackTraceLine plain_os (Some ''db_bench(main+0x1a)'') 0x401136 boot) = Returned
   \<and> new_events boot (snd (PrintStackTraceLine plain_os (Some ''db_bench(main+0x1a)'') 0x401136 boot)) =
       [Getpid, Readlink ''/proc/%d/exe'' [AInt 100], Fprintf ''%s '' [AStr ''db_bench(main+0x1a)''],
        Fprintf '' %p'' [APtr 0x401136], Fprintf [NL] []]
   \<and> new_events boot (snd (PrintStackTraceLine plain_os None 0x401136 boot)) =
       [Getpid, Readlink ''/proc/%d/exe'' [AInt 100],
        Fprintf '' %p'' [APtr 0x401136], Fprintf [NL] []]
   \<and> fst (static_executable no_tool_os boot) = Some ''/usr/bin/db_bench''
   \<and> (\<forall>t. popen_os no_tool_os t 0x401136 ''/usr/bin/db_bench'' = None)
   \<and> fst (PrintStackTraceLine no_tool_os (Some ''db_bench(main+0x1a)'') 0x401136 boot) = Returned
   \<and> new_events boot (snd (PrintStackTraceLine no_tool_os (Some ''db_bench(main+0x1a)'') 0x401136 boot)) =
       [Getpid, Readlink ''/proc/%d/exe'' [AInt 100], Fprintf ''%s '' [AStr ''db_bench(main+0x1a)''],
        Popen ''addr2line %p -e %s -f -C 2>&1'' [APtr 0x401136, AStr ''/usr/bin/db_bench''],
        Fprintf [NL] []]
   \<and> Fprintf '' %p'' [APtr 0x401136] \<notin>
       set (new_events boot (snd (PrintStackTraceLine no_tool_os (Some ''db_bench(main+0x1a)'')
                                    0x401136 boot)))"
proof -
  have a: "fst (static_executable plain_os boot) = None"
    "fst (static_executable no_tool_os boot) = Some ''/usr/bin/db_bench''"
    "\<forall>t. popen_os no_tool_os t 0x401136 ''/usr/bin/db_bench'' = None"
    "executable boot = None" "getpid_os plain_os = 100" "getpid_os no_tool_os = 100"
    by (simp_all add: run_simps no_tool_os_def plain_os_def boot_def)
  show ?thesis
    using a
      PrintStackTraceLine_fallback [where os = plain_os and w = boot
        and symbol = "Some ''db_bench(main+0x1a)''" and frame = "0x401136"]
      PrintStackTraceLine_fallback [where os = plain_os and w = boot
        and symbol = None and frame = "0x401136"]
      PrintStackTraceLine_fallback [where os = no_tool_os and w = boot
        and symbol = "Some ''db_bench(main+0x1a)''" and frame = "0x401136"]
    by simp
qed

text \<open>
  C4, as the specification has it: in interactive debug mode a debugger that fails leaves
  \<^verbatim>\<open>PrintStack\<close> without the built-in trace. With \<^verbatim>\<open>ROCKSDB_DEBUG=1\<close>, in the parent, and a
  debugger that exits with status 1, \<^verbatim>\<open>PrintStack(3)\<close> prints the notice and then the two
  frames behind the skip, by \<^verbatim>\<open>backtrace\<close> and the symbolizer.
\<close>

theorem debug_mode_falls_back_too:
  "debug_flag (getenv_os debug_os ''ROCKSDB_DEBUG'')
   \<and> fork_os debug_os = Parent 200 \<and> waitpid_os debug_os = Exited 1
   \<and> fst (PrintStack_skip linux_build debug_os 3 boot) = Returned
   \<and> new_events boot (snd (PrintStack_skip linux_build debug_os 3 boot)) =
       [Getenv ''ROCKSDB_DEBUG'', Prctl, Getpid, Getenv ''ROCKSDB_DEBUG_USE_PID'', Gettid, Fork,
        Waitpid 200, gdb_failed_notice,
        Backtrace 100, BacktraceSymbols [0x401560, 0x4017a4] 2,
        Fprintf ''#%-2d  '' [AInt 0], Getpid, Readlink ''/proc/%d/exe'' [AInt 100],
        Fprintf '' %p'' [APtr 0x401560], Fprintf [NL] [],
        Fprintf ''#%-2d  '' [AInt 1], Fprintf '' %p'' [APtr 0x4017a4], Fprintf [NL] [],
        Free_symbols]"
  by (simp add: run_simps debug_os_def linux_build_def plain_os_def boot_def strlen_def)

text \<open>
  C4, amended: in interactive debug mode, the process that called \<^verbatim>\<open>PrintStack\<close> (the
  parent of the fork, or the caller of a fork that failed) whose wait does not report an
  exit with status 0 prints the notice and then runs the built-in path, as in stack-dump
  mode: when it returns, the frame entries are those of the captured frames behind the
  skip.
\<close>

theorem debug_mode_fallback:
  assumes "debug_flag (getenv_os os ''ROCKSDB_DEBUG'')"
    and "fork_os os \<noteq> Child" and "\<not> exited_success (waitpid_os os)"
  shows "\<exists>pre w1.
           trace w1 = trace w @ pre @ [gdb_failed_notice]
           \<and> executable w1 = executable w
           \<and> frame_numbers pre = [] \<and> frame_addresses pre = []
           \<and> Backtrace kMaxFrames \<notin> set pre
           \<and> PrintStack_skip b os skip w = unwind_and_print os skip w1
           \<and> new_events w (snd (PrintStack_skip b os skip w)) =
               pre @ gdb_failed_notice # new_events w1 (snd (unwind_and_print os skip w1))
           \<and> hd (new_events w1 (snd (unwind_and_print os skip w1))) = Backtrace kMaxFrames
           \<and> (fst (PrintStack_skip b os skip w) = Returned \<longrightarrow>
                frame_numbers (new_events w (snd (PrintStack_skip b os skip w))) =
                  map int [0..<nat (int (length (backtrace os In_PrintStack kMaxFrames)) - skip)]
                \<and> frame_addresses (new_events w (snd (PrintStack_skip b os skip w))) =
                  drop (nat skip) (backtrace os In_PrintStack kMaxFrames))"
  using assms by (intro gdb_failed_falls_back) simp_all

theorem debug_mode_fallback_witness:
  "debug_flag (getenv_os debug_os ''ROCKSDB_DEBUG'')
   \<and> fork_os debug_os \<noteq> Child \<and> \<not> exited_success (waitpid_os debug_os)
   \<and> fst (PrintStack_skip linux_build debug_os 3 boot) = Returned
   \<and> frame_numbers (new_events boot (snd (PrintStack_skip linux_build debug_os 3 boot))) = [0, 1]
   \<and> frame_addresses (new_events boot (snd (PrintStack_skip linux_build debug_os 3 boot))) =
       [0x401560, 0x4017a4]"
proof -
  have h: "debug_flag (getenv_os debug_os ''ROCKSDB_DEBUG'')"
    "fork_os debug_os \<noteq> Child" "\<not> exited_success (waitpid_os debug_os)"
    by (simp_all add: debug_os_def plain_os_def debug_flag_def exited_success_def strlen_def)
  have r: "fst (PrintStack_skip linux_build debug_os 3 boot) = Returned"
    by (simp add: run_simps debug_os_def linux_build_def plain_os_def boot_def strlen_def)
  from debug_mode_fallback [OF h, where b = linux_build and w = boot and skip = 3] r
  have "frame_numbers (new_events boot (snd (PrintStack_skip linux_build debug_os 3 boot))) =
          map int [0..<nat (int (length (backtrace debug_os In_PrintStack kMaxFrames)) - 3)]"
    "frame_addresses (new_events boot (snd (PrintStack_skip linux_build debug_os 3 boot))) =
          drop (nat 3) (backtrace debug_os In_PrintStack kMaxFrames)"
    by auto
  then have "frame_numbers (new_events boot (snd (PrintStack_skip linux_build debug_os 3 boot))) = [0, 1]"
    "frame_addresses (new_events boot (snd (PrintStack_skip linux_build debug_os 3 boot))) =
       [0x401560, 0x4017a4]"
    by (simp_all add: backtrace_def debug_os_def plain_os_def kMaxFrames_def upt_conv_Cons
          eval_nat_numeral)
  with h r show ?thesis by simp
qed

text \<open>
  C5, as the specification has it: in stack-dump mode a debugger that is unavailable leads
  to the notice and the built-in trace. With no \<^verbatim>\<open>gdb\<close> to execute, the forked child prints
  its announcement, fails in \<^verbatim>\<open>execlp\<close> and returns from \<^verbatim>\<open>PrintStack\<close> into the caller;
  when it then ends with status 0, the parent's \<^verbatim>\<open>PrintStack\<close> returns after the wait.
  Neither has printed the notice or a frame.
\<close>

theorem absent_debugger_no_fallback:
  "ROCKSDB_DLL dll_build
   \<and> debug_flag (getenv_os absent_gdb_os ''ROCKSDB_DEBUG'') = False
   \<and> execlp_os absent_gdb_os = False
   \<and> PrintStack_skip dll_build (absent_gdb_os\<lparr>fork_os := Child\<rparr>) 3 boot =
       (Returned,
        boot\<lparr>trace :=
          [Getenv ''ROCKSDB_DEBUG'', Prctl, Getpid, Getenv ''ROCKSDB_DEBUG_USE_PID'', Gettid, Fork,
           Fprintf (''Invoking GDB for stack trace...'' @ [NL]) [], Dup2 2 1, Close 0,
           Execlp [AStr ''gdb'', AStr ''gdb'', AStr ''-n'', AStr ''-batch'', AStr ''-p'', AInt 101,
                   AStr ''-ex'', AStr bt_in_gdb]]\<rparr>)
   \<and> PrintStack_skip dll_build absent_gdb_os 3 boot =
       (Returned,
        boot\<lparr>trace :=
          [Getenv ''ROCKSDB_DEBUG'', Prctl, Getpid, Getenv ''ROCKSDB_DEBUG_USE_PID'', Gettid, Fork,
           Waitpid 200]\<rparr>)"
  by (simp add: run_simps absent_gdb_os_def dll_build_def linux_build_def plain_os_def boot_def)

text \<open>
  C5, amended: in stack-dump mode (\<^verbatim>\<open>ROCKSDB_DLL\<close> on Linux, \<^verbatim>\<open>ROCKSDB_DEBUG\<close> unset or
  empty), when the wait for the debugger does not report an exit with status 0,
  \<^verbatim>\<open>PrintStack\<close> prints the notice and then does exactly what the built-in path does from
  there, starting with \<^verbatim>\<open>backtrace\<close>; nothing before the notice is a frame entry. When it
  returns, the entries are those of the captured frames behind the skip, numbered from 0.
\<close>

theorem stack_dump_mode_falls_back:
  assumes "ROCKSDB_DLL b" and "\<not> debug_flag (getenv_os os ''ROCKSDB_DEBUG'')"
    and "fork_os os \<noteq> Child" and "\<not> exited_success (waitpid_os os)"
  shows "\<exists>pre w1.
           trace w1 = trace w @ pre @ [gdb_failed_notice]
           \<and> executable w1 = executable w
           \<and> frame_numbers pre = [] \<and> frame_addresses pre = []
           \<and> Backtrace kMaxFrames \<notin> set pre
           \<and> PrintStack_skip b os skip w = unwind_and_print os skip w1
           \<and> new_events w (snd (PrintStack_skip b os skip w)) =
               pre @ gdb_failed_notice # new_events w1 (snd (unwind_and_print os skip w1))
           \<and> hd (new_events w1 (snd (unwind_and_print os skip w1))) = Backtrace kMaxFrames
           \<and> (fst (PrintStack_skip b os skip w) = Returned \<longrightarrow>
                frame_numbers (new_events w (snd (PrintStack_skip b os skip w))) =
                  map int [0..<nat (int (length (backtrace os In_PrintStack kMaxFrames)) - skip)]
                \<and> frame_addresses (new_events w (snd (PrintStack_skip b os skip w))) =
                  drop (nat skip) (backtrace os In_PrintStack kMaxFrames))"
  using assms(1,3,4) by (intro gdb_failed_falls_back) simp_all

theorem stack_dump_mode_falls_back_witness:
  "ROCKSDB_DLL dll_build \<and> \<not> debug_flag (getenv_os plain_os ''ROCKSDB_DEBUG'')
   \<and> fork_os plain_os \<noteq> Child \<and> \<not> exited_success (waitpid_os plain_os)
   \<and> fst (PrintStack_skip dll_build plain_os 3 boot) = Returned
   \<and> new_events boot (snd (PrintStack_skip dll_build plain_os 3 boot)) =
       [Getenv ''ROCKSDB_DEBUG'', Prctl, Getpid, Getenv ''ROCKSDB_DEBUG_USE_PID'', Gettid, Fork,
        Waitpid 200, gdb_failed_notice,
        Backtrace 100, BacktraceSymbols [0x401560, 0x4017a4] 2,
        Fprintf ''#%-2d  '' [AInt 0], Getpid, Readlink ''/proc/%d/exe'' [AInt 100],
        Fprintf '' %p'' [APtr 0x401560], Fprintf [NL] [],
        Fprintf ''#%-2d  '' [AInt 1], Fprintf '' %p'' [APtr 0x4017a4], Fprintf [NL] [],
        Free_symbols]
   \<and> frame_numbers (new_events boot (snd (PrintStack_skip dll_build plain_os 3 boot))) = [0, 1]"
proof -
  have h: "ROCKSDB_DLL dll_build" "\<not> debug_flag (getenv_os plain_os ''ROCKSDB_DEBUG'')"
    "fork_os plain_os \<noteq> Child" "\<not> exited_success (waitpid_os plain_os)"
    by (simp_all add: dll_build_def linux_build_def plain_os_def debug_flag_def exited_success_def)
  have r: "fst (PrintStack_skip dll_build plain_os 3 boot) = Returned"
    "new_events boot (snd (PrintStack_skip dll_build plain_os 3 boot)) =
       [Getenv ''ROCKSDB_DEBUG'', Prctl, Getpid, Getenv ''ROCKSDB_DEBUG_USE_PID'', Gettid, Fork,
        Waitpid 200, gdb_failed_notice,
        Backtrace 100, BacktraceSymbols [0x401560, 0x4017a4] 2,
        Fprintf ''#%-2d  '' [AInt 0], Getpid, Readlink ''/proc/%d/exe'' [AInt 100],
        Fprintf '' %p'' [APtr 0x401560], Fprintf [NL] [],
        Fprintf ''#%-2d  '' [AInt 1], Fprintf '' %p'' [APtr 0x4017a4], Fprintf [NL] [],
        Free_symbols]"
    by (simp_all add: run_simps dll_build_def linux_build_def plain_os_def boot_def)
  from stack_dump_mode_falls_back [OF h, where w = boot and skip = 3] r(1)
  have "frame_numbers (new_events boot (snd (PrintStack_skip dll_build plain_os 3 boot))) =
          map int [0..<nat (int (length (backtrace plain_os In_PrintStack kMaxFrames)) - 3)]"
    by auto
  then have "frame_numbers (new_events boot (snd (PrintStack_skip dll_build plain_os 3 boot))) = [0, 1]"
    by (simp add: backtrace_def plain_os_def kMaxFrames_def upt_conv_Cons)
  with h r show ?thesis by simp
qed

text \<open>
  C6, as the specification has it: for any skip, saving and at once printing shows the
  frames that \<^verbatim>\<open>PrintStack\<close> with the same skip shows. With skip 0 and no debugger the two
  differ in entries 0 and 1: a capture starts with the return address inside the function
  that captures, \<^verbatim>\<open>PrintStack\<close> or \<^verbatim>\<open>SaveStack\<close>, and the return address at the call of that
  function. And with \<^verbatim>\<open>ROCKSDB_DEBUG=1\<close> and a debugger that exits with status 0,
  \<^verbatim>\<open>PrintStack(2)\<close> returns without symbolizing any frame, while \<^verbatim>\<open>SaveStack\<close> with skip 2
  and \<^verbatim>\<open>PrintAndFreeStack\<close> symbolize three.
\<close>

theorem save_then_print_differs:
  "fst (PrintStack_skip linux_build plain_os 0 boot) = Returned
   \<and> frame_addresses (new_events boot (snd (PrintStack_skip linux_build plain_os 0 boot))) =
       [0x401136, 0x401290, 0x4013f2, 0x401560, 0x4017a4]
   \<and> fst (SaveStack_then_PrintAndFreeStack plain_os 0 boot) = Returned
   \<and> frame_addresses (new_events boot (snd (SaveStack_then_PrintAndFreeStack plain_os 0 boot))) =
       [0x4011c8, 0x4012a7, 0x4013f2, 0x401560, 0x4017a4]
   \<and> fst (PrintStack_skip linux_build gdb_ok_os 2 boot) = Returned
   \<and> frame_addresses (new_events boot (snd (PrintStack_skip linux_build gdb_ok_os 2 boot))) = []
   \<and> fst (SaveStack_then_PrintAndFreeStack gdb_ok_os 2 boot) = Returned
   \<and> frame_addresses (new_events boot (snd (SaveStack_then_PrintAndFreeStack gdb_ok_os 2 boot))) =
       [0x4013f2, 0x401560, 0x4017a4]"
  by (simp add: run_simps gdb_ok_os_def debug_os_def linux_build_def plain_os_def boot_def
        strlen_def SIZE_MAX_def frame_address_def)

text \<open>
  C6, amended: for a skip \<open>N\<close> of at least 2, when \<^verbatim>\<open>PrintStack(N)\<close> comes to its built-in
  path (the debugger is not tried, or the wait for it does not report an exit with status
  0) and both it and \<^verbatim>\<open>SaveStack\<close> with skip \<open>N\<close> followed by \<^verbatim>\<open>PrintAndFreeStack\<close> return,
  both symbolize the same frames in the same order: the return addresses of the caller
  and of the frames below it, from entry \<open>N\<close> of the capture on.
\<close>

theorem save_then_print_same_frames:
  assumes "\<not> (ROCKSDB_DLL b \<or> debug_flag (getenv_os os ''ROCKSDB_DEBUG''))
           \<or> fork_os os \<noteq> Child \<and> \<not> exited_success (waitpid_os os)"
    and "fst (PrintStack_skip b os N w) = Returned"
    and "fst (SaveStack_then_PrintAndFreeStack os N w) = Returned"
    and "2 \<le> N"
  shows "frame_addresses (new_events w (snd (SaveStack_then_PrintAndFreeStack os N w))) =
         frame_addresses (new_events w (snd (PrintStack_skip b os N w)))
       \<and> frame_addresses (new_events w (snd (PrintStack_skip b os N w))) =
         drop (nat (N - 2)) (take 98 (call_stack os))"
proof -
  obtain w1 pre where bi:
      "trace w1 = trace w @ pre" "frame_addresses pre = []"
      "PrintStack_skip b os N w = unwind_and_print os N w1"
    using PrintStack_skip_builtin [OF assms(1), of w N] by metis
  obtain oc w' where u: "unwind_and_print os N w1 = (oc, w')"
    by (cases "unwind_and_print os N w1")
  note uf = unwind_and_print_facts [OF u]
  have oc: "oc = Returned" using assms(2) bi(3) u by simp
  have ext: "extends w1 w'" using uf by simp
  have "trace w' = trace w @ pre @ new_events w1 w'"
    using trace_new_events [OF ext] bi(1) by simp
  then have ne: "new_events w w' = pre @ new_events w1 w'"
    by (rule new_events_eqI)
  have range: "0 \<le> N" "N \<le> kMaxFrames" using uf oc by simp_all
  have p: "frame_addresses (new_events w (snd (PrintStack_skip b os N w))) =
             drop (nat N) (backtrace os In_PrintStack kMaxFrames)"
    using bi(2,3) u ne uf oc by simp
  have s: "frame_addresses (new_events w (snd (SaveStack_then_PrintAndFreeStack os N w))) =
             drop (nat N) (backtrace os In_SaveStack kMaxFrames)"
    using SaveStack_then_PrintAndFreeStack_facts [of w os N] range assms(3) by simp
  show ?thesis
    using p s backtrace_drop_caller [OF assms(4), of os] by simp
qed

theorem save_then_print_same_frames_witness:
  "fst (PrintStack_skip linux_build plain_os 2 boot) = Returned
   \<and> fst (SaveStack_then_PrintAndFreeStack plain_os 2 boot) = Returned
   \<and> (2::int) \<le> 2
   \<and> frame_addresses (new_events boot (snd (SaveStack_then_PrintAndFreeStack plain_os 2 boot))) =
       [0x4013f2, 0x401560, 0x4017a4]
   \<and> frame_addresses (new_events boot (snd (PrintStack_skip linux_build plain_os 2 boot))) =
       [0x4013f2, 0x401560, 0x4017a4]"
proof -
  have h: "\<not> (ROCKSDB_DLL linux_build \<or> debug_flag (getenv_os plain_os ''ROCKSDB_DEBUG''))
           \<or> fork_os plain_os \<noteq> Child \<and> \<not> exited_success (waitpid_os plain_os)"
    by (simp add: linux_build_def plain_os_def debug_flag_def)
  have r: "fst (PrintStack_skip linux_build plain_os 2 boot) = Returned"
    "fst (SaveStack_then_PrintAndFreeStack plain_os 2 boot) = Returned"
    by (simp_all add: run_simps linux_build_def plain_os_def boot_def SIZE_MAX_def)
  have n: "(2::int) \<le> 2" by simp
  from save_then_print_same_frames [OF h r n]
  show ?thesis
    using r by (simp add: plain_os_def)
qed

text \<open>
  C7. \<^verbatim>\<open>InstallStackTraceHandler\<close> makes four calls of \<^verbatim>\<open>signal\<close>, for \<^verbatim>\<open>SIGILL\<close>, \<^verbatim>\<open>SIGSEGV\<close>,
  \<^verbatim>\<open>SIGBUS\<close> and \<^verbatim>\<open>SIGABRT\<close>, each with the stack trace handler, and then relaxes the
  tracing restriction by \<^verbatim>\<open>prctl\<close> (where the build defines \<^verbatim>\<open>PR_SET_PTRACER_ANY\<close>), and
  nothing else. The handler becomes the disposition of exactly those of the four signals
  whose registration succeeds; every other disposition is as before. The result is the
  state alone: a registration that fails shows in no value and changes no event.
\<close>

theorem InstallStackTraceHandler_registers:
  assumes "PR_SET_PTRACER_ANY_defined b"
  shows "new_events w (InstallStackTraceHandler b os w) =
           [Signal SIGILL StackTraceHandler_fn, Signal SIGSEGV StackTraceHandler_fn,
            Signal SIGBUS StackTraceHandler_fn, Signal SIGABRT StackTraceHandler_fn, Prctl]
         \<and> (\<forall>sig. disposition (InstallStackTraceHandler b os w) sig =
                (if sig \<in> {SIGILL, SIGSEGV, SIGBUS, SIGABRT} \<and> signal_os os sig
                 then StackTraceHandler_fn else disposition w sig))
         \<and> executable (InstallStackTraceHandler b os w) = executable w"
proof -
  have "trace (InstallStackTraceHandler b os w) =
          trace w @ [Signal SIGILL StackTraceHandler_fn, Signal SIGSEGV StackTraceHandler_fn,
            Signal SIGBUS StackTraceHandler_fn, Signal SIGABRT StackTraceHandler_fn, Prctl]"
    using assms by (simp add: InstallStackTraceHandler_def Let_def signal_call_facts)
  then have "new_events w (InstallStackTraceHandler b os w) =
           [Signal SIGILL StackTraceHandler_fn, Signal SIGSEGV StackTraceHandler_fn,
            Signal SIGBUS StackTraceHandler_fn, Signal SIGABRT StackTraceHandler_fn, Prctl]"
    by (rule new_events_eqI)
  moreover have "disposition (InstallStackTraceHandler b os w) sig =
                (if sig \<in> {SIGILL, SIGSEGV, SIGBUS, SIGABRT} \<and> signal_os os sig
                 then StackTraceHandler_fn else disposition w sig)" for sig
    by (simp add: InstallStackTraceHandler_def Let_def signal_call_facts
          SIGILL_def SIGSEGV_def SIGBUS_def SIGABRT_def)
  moreover have "executable (InstallStackTraceHandler b os w) = executable w"
    by (simp add: InstallStackTraceHandler_def Let_def signal_call_facts)
  ultimately show ?thesis by blast
qed

theorem InstallStackTraceHandler_registers_witness:
  "PR_SET_PTRACER_ANY_defined linux_build
   \<and> new_events boot (InstallStackTraceHandler linux_build plain_os boot) =
       [Signal 4 StackTraceHandler_fn, Signal 11 StackTraceHandler_fn,
        Signal 7 StackTraceHandler_fn, Signal 6 StackTraceHandler_fn, Prctl]
   \<and> disposition (InstallStackTraceHandler linux_build plain_os boot) 11 = StackTraceHandler_fn
   \<and> disposition (InstallStackTraceHandler linux_build plain_os boot) 15 = SIG_DFL"
proof -
  have h: "PR_SET_PTRACER_ANY_defined linux_build" by (simp add: linux_build_def)
  show ?thesis
    using h InstallStackTraceHandler_registers [OF h, of boot plain_os]
    by (simp add: SIGILL_def SIGSEGV_def SIGBUS_def SIGABRT_def plain_os_def boot_def)
qed



text \<open>
  C9. The path of the executable is asked for at most once in a process. A call of
  \<^verbatim>\<open>PrintStackTraceLine\<close> that finds the static \<^verbatim>\<open>executable\<close> uninitialised makes the one
  query and keeps its answer, a path or none. Every call after that finds the kept answer,
  keeps it, makes no query, and does the same whatever \<^verbatim>\<open>readlink\<close> would answer by then;
  so do whole prints. A process whose trace holds at most one query, and none while the
  static is uninitialised, is still such a process after every operation.
\<close>

theorem executable_resolved_once:
  "(executable w = None \<longrightarrow>
      executable (snd (PrintStackTraceLine os symbol frame w)) =
        Some (map_option (take 1023) (readlink_os os (Suc (now w))))
      \<and> executable_queries (new_events w (snd (PrintStackTraceLine os symbol frame w))) = 1)
   \<and> (\<forall>cached. executable w = Some cached \<longrightarrow>
         executable (snd (PrintStackTraceLine os symbol frame w)) = Some cached
         \<and> executable_queries (new_events w (snd (PrintStackTraceLine os symbol frame w))) = 0
         \<and> (\<forall>answers. PrintStackTraceLine (os\<lparr>readlink_os := answers\<rparr>) symbol frame w =
                        PrintStackTraceLine os symbol frame w)
         \<and> executable (snd (PrintStack_skip b os K w)) = Some cached
         \<and> executable_queries (new_events w (snd (PrintStack_skip b os K w))) = 0
         \<and> executable (snd (PrintAndFreeStack os callstack n w)) = Some cached
         \<and> executable_queries (new_events w (snd (PrintAndFreeStack os callstack n w))) = 0)
   \<and> (resolved_at_most_once w \<longrightarrow>
         resolved_at_most_once (snd (PrintStackTraceLine os symbol frame w))
         \<and> resolved_at_most_once (snd (PrintStack_skip b os K w))
         \<and> resolved_at_most_once (snd (PrintAndFreeStack os callstack n w))
         \<and> resolved_at_most_once (snd (snd (snd (SaveStack os K w))))
         \<and> resolved_at_most_once (InstallStackTraceHandler b os w))"
proof -
  obtain oc w' where l: "PrintStackTraceLine os symbol frame w = (oc, w')"
    by (cases "PrintStackTraceLine os symbol frame w")
  note lf = PrintStackTraceLine_facts [OF l]
  obtain exe w1 where se: "static_executable os w = (exe, w1)"
    by (cases "static_executable os w")
  note sf = static_executable_facts [OF se]
  obtain oc2 w2 where pa: "PrintAndFreeStack os callstack n w = (oc2, w2)"
    by (cases "PrintAndFreeStack os callstack n w")
  note pf = PrintAndFreeStack_facts [OF pa]
  obtain oc3 m cs w3 where ss: "SaveStack os K w = (oc3, m, cs, w3)"
    by (cases "SaveStack os K w")
  note ssf = SaveStack_facts [OF ss]
  note skf = PrintStack_skip_facts [of w b os K]
  have first: "executable w' = Some (map_option (take 1023) (readlink_os os (Suc (now w))))
      \<and> executable_queries (new_events w w') = 1" if "executable w = None"
    using lf(2,7) sf(4) [OF that] se that by simp
  have later: "executable w' = Some cached \<and> executable_queries (new_events w w') = 0"
    if "executable w = Some cached" for cached
    using lf(2,7) sf(3) [OF that] se that by simp
  have inv_line: "resolved_at_most_once w'" if "resolved_at_most_once w"
    using lf(1) that _ later
  proof (rule resolved_at_most_once_step)
    show "executable_queries (new_events w w') \<le> 1" using lf(7) by simp
    show "executable_queries (new_events w w') = 0" if "executable w' = None"
      using that lf(2) by simp
  qed
  have inv_skip: "resolved_at_most_once (snd (PrintStack_skip b os K w))"
    if "resolved_at_most_once w"
    using PrintStack_skip_extends [of w b os K] that
    by (rule resolved_at_most_once_step) (use skf in simp_all)
  have inv_paf: "resolved_at_most_once w2" if "resolved_at_most_once w"
    using pf(1) that pf(6) pf(5) pf(7) by (rule resolved_at_most_once_step)
  have inv_save: "resolved_at_most_once w3" if "resolved_at_most_once w"
    using that ssf(2,3) by (simp add: resolved_at_most_once_def is_readlink_def)
  have inv_install: "resolved_at_most_once (InstallStackTraceHandler b os w)"
    if "resolved_at_most_once w"
    using that
    by (simp add: resolved_at_most_once_def InstallStackTraceHandler_def Let_def
          signal_call_facts is_readlink_def)
  show ?thesis
    using l pa ss first later inv_line inv_skip inv_paf inv_save inv_install
      PrintStackTraceLine_cached [where w = w and os = os and symbol = symbol and frame = frame]
      skf pf(5)
    by simp
qed

theorem executable_resolved_once_witness:
  "executable boot = None \<and> resolved_at_most_once boot
   \<and> executable (snd (PrintStackTraceLine moving_os None 0x401136 boot)) = Some None
   \<and> executable_queries (new_events boot (snd (PrintStackTraceLine moving_os None 0x401136 boot))) = 1
   \<and> readlink_os moving_os 9 = Some ''/usr/bin/db_bench''
   \<and> executable (snd (PrintStack_skip linux_build moving_os 0
                        (snd (PrintStackTraceLine moving_os None 0x401136 boot)))) = Some None
   \<and> executable_queries (new_events (snd (PrintStackTraceLine moving_os None 0x401136 boot))
        (snd (PrintStack_skip linux_build moving_os 0
               (snd (PrintStackTraceLine moving_os None 0x401136 boot))))) = 0
   \<and> resolved_at_most_once (snd (PrintStack_skip linux_build moving_os 0
                        (snd (PrintStackTraceLine moving_os None 0x401136 boot))))"
proof -
  let ?w1 = "snd (PrintStackTraceLine moving_os None 0x401136 boot)"
  have a: "executable boot = None" "resolved_at_most_once boot"
    by (simp_all add: boot_def resolved_at_most_once_def)
  have b: "readlink_os moving_os (Suc (now boot)) = None" "readlink_os moving_os 9 = Some ''/usr/bin/db_bench''"
    by (simp_all add: moving_os_def boot_def now_def)
  from executable_resolved_once [where w = boot and os = moving_os and symbol = None
         and frame = "0x401136"] a b
  have c: "executable ?w1 = Some None" "executable_queries (new_events boot ?w1) = 1"
    "resolved_at_most_once ?w1"
    by simp_all
  from executable_resolved_once [where w = ?w1 and os = moving_os and b = linux_build
         and K = 0] c(1,3)
  have "executable (snd (PrintStack_skip linux_build moving_os 0 ?w1)) = Some None"
    "executable_queries (new_events ?w1 (snd (PrintStack_skip linux_build moving_os 0 ?w1))) = 0"
    "resolved_at_most_once (snd (PrintStack_skip linux_build moving_os 0 ?w1))"
    by simp_all
  with a b c show ?thesis by simp
qed

text \<open>
  C10. The store \<^verbatim>\<open>line[strlen(line) - 1] = 0\<close> is to stay inside \<^verbatim>\<open>line\<close> for every chunk
  that \<^verbatim>\<open>fgets\<close> delivers. It does not: a chunk that starts with a zero byte has
  \<^verbatim>\<open>strlen(line) = 0\<close>, the index wraps to \<^verbatim>\<open>SIZE_MAX\<close>, and the store leaves the buffer.
  Here the path of the executable is known and the tool writes a zero byte and a newline.
\<close>

theorem PrintStackTraceLine_NUL_output_faults:
  "fst (PrintStackTraceLine nul_os None 0x401136 boot) = Fault"
  by (simp add: PrintStackTraceLine_def static_executable_def GetExecutableName_def Let_def
        nul_os_def plain_os_def boot_def echo_lines_leading_NUL)

end
